theory Spec2Isabelle
  imports Complex_Main "HOL-Library.Word" "HOL-Library.Monad_Syntax" "HOL-Library.Signed_Division"
begin

section \<open>Numeric model\<close>

text \<open>
  The colour engine of colorist (\<^verbatim>\<open>lib/src/transform.c\<close>, \<^verbatim>\<open>lib/src/profile.c\<close>) computes on
  C \<^verbatim>\<open>float\<close> values. They are modelled by \<^typ>\<open>real\<close>: arithmetic is exact, there is no NaN
  and no infinity, and \<^verbatim>\<open>powf\<close> is the real power \<open>powr\<close>. C \<^verbatim>\<open>int\<close> values are modelled by
  \<^typ>\<open>int\<close> (index arithmetic is taken as exact), \<^verbatim>\<open>uint8_t\<close>, \<^verbatim>\<open>uint16_t\<close> and
  \<^verbatim>\<open>uint32_t\<close> by words of that width.

  A function of the model returns \<open>None\<close> where the C code has no defined result: a read
  or write outside a buffer, a read of a stack cell that was never written, a conversion
  of a float to an integer type that cannot represent it, a failed assertion.
\<close>

type_synonym u8 = "8 word"
type_synonym u16 = "16 word"
type_synonym u32 = "32 word"

definition powf :: "real \<Rightarrow> real \<Rightarrow> real" where
  "powf x y = x powr y"

subsection \<open>SMPTE ST.2084 transfer functions (transform.c, lines 133-165)\<close>

definition PQ_C1 :: real where "PQ_C1 = 0.8359375"
definition PQ_C2 :: real where "PQ_C2 = 18.8515625"
definition PQ_C3 :: real where "PQ_C3 = 18.6875"
definition PQ_M1 :: real where "PQ_M1 = 0.1593017578125"
definition PQ_M2 :: real where "PQ_M2 = 78.84375"

definition PQ_EOTF :: "real \<Rightarrow> real" where
  "PQ_EOTF N =
     (let N1m2 = powf N (1 / PQ_M2);
          N1m2c1 = N1m2 - PQ_C1;
          N1m2c1 = (if N1m2c1 < 0 then 0 else N1m2c1);
          c2c3N1m2 = PQ_C2 - (PQ_C3 * N1m2)
      in powf (N1m2c1 / c2c3N1m2) (1 / PQ_M1))"

definition PQ_OETF :: "real \<Rightarrow> real" where
  "PQ_OETF L =
     (let Lm1 = powf L PQ_M1;
          c2Lm1 = PQ_C2 * Lm1;
          c3Lm1 = PQ_C3 * Lm1
      in powf ((PQ_C1 + c2Lm1) / (1 + c3Lm1)) PQ_M2)"

text \<open>
  The formulas as the specification words them (section 4.E), for comparison with the
  two functions above.
\<close>

definition spec_c1 :: real where "spec_c1 = 3424 / 4096"
definition spec_c2 :: real where "spec_c2 = (2413 / 4096) * 32"
definition spec_c3 :: real where "spec_c3 = (2392 / 4096) * 32"
definition spec_m1 :: real where "spec_m1 = (2610 / 4096) / 4"
definition spec_m2 :: real where "spec_m2 = (2523 / 4096) * 128"

definition spec_PQ_EOTF :: "real \<Rightarrow> real" where
  "spec_PQ_EOTF N =
     ((max (N powr (1 / spec_m2) - spec_c1) 0) / (spec_c2 - spec_c3 * N powr (1 / spec_m2)))
       powr (1 / spec_m1)"

definition spec_PQ_OETF :: "real \<Rightarrow> real" where
  "spec_PQ_OETF L =
     ((spec_c1 + spec_c2 * L powr spec_m1) / (1 + spec_c3 * L powr spec_m1)) powr spec_m2"

section \<open>Buffers, pointers and loops\<close>

text \<open>
  A pixel buffer is the list of its samples, and a pointer into it is the byte offset from
  its start (an \<^typ>\<open>int\<close>, as the index arithmetic of the source is on \<^verbatim>\<open>int\<close>). Source and
  destination are distinct buffers. \<open>rd\<close> and \<open>wr\<close> are the bounds-checked element
  accesses; the typed versions take a byte pointer \<open>p\<close> and the element index \<open>k\<close> of
  \<^verbatim>\<open>((T *)p)[k]\<close>. Pixel pointers are multiples of the sample size (the pixel sizes are
  3 and 4 bytes for 8-bit samples, 6 and 8 for 16-bit samples, 12 and 16 for floats), so
  \<open>p div 2\<close> and \<open>p div 4\<close> are the sample index of \<open>p\<close>.
\<close>

definition rd :: "'a list \<Rightarrow> int \<Rightarrow> 'a option" where
  "rd xs k = (if 0 \<le> k \<and> k < int (length xs) then Some (xs ! nat k) else None)"

definition wr :: "'a list \<Rightarrow> int \<Rightarrow> 'a \<Rightarrow> 'a list option" where
  "wr xs k v = (if 0 \<le> k \<and> k < int (length xs) then Some (xs[nat k := v]) else None)"

definition rd8 :: "u8 list \<Rightarrow> int \<Rightarrow> int \<Rightarrow> u8 option" where
  "rd8 buf p k = rd buf (p + k)"

definition wr8 :: "u8 list \<Rightarrow> int \<Rightarrow> int \<Rightarrow> u8 \<Rightarrow> u8 list option" where
  "wr8 buf p k v = wr buf (p + k) v"

definition rd16 :: "u16 list \<Rightarrow> int \<Rightarrow> int \<Rightarrow> u16 option" where
  "rd16 buf p k = rd buf (p div 2 + k)"

definition wr16 :: "u16 list \<Rightarrow> int \<Rightarrow> int \<Rightarrow> u16 \<Rightarrow> u16 list option" where
  "wr16 buf p k v = wr buf (p div 2 + k) v"

definition rdf :: "real list \<Rightarrow> int \<Rightarrow> int \<Rightarrow> real option" where
  "rdf buf p k = rd buf (p div 4 + k)"

definition wrf :: "real list \<Rightarrow> int \<Rightarrow> int \<Rightarrow> real \<Rightarrow> real list option" where
  "wrf buf p k v = wr buf (p div 4 + k) v"

text \<open>Storing consecutive floats at \<^verbatim>\<open>((float *)p)[0]\<close>, \<^verbatim>\<open>[1]\<close>, ...\<close>

fun storef :: "real list \<Rightarrow> int \<Rightarrow> int \<Rightarrow> real list \<Rightarrow> real list option" where
  "storef buf p k [] = Some buf"
| "storef buf p k (c # cs) = do { buf' \<leftarrow> wrf buf p k c; storef buf' p (k + 1) cs }"

text \<open>
  The conversions \<^verbatim>\<open>(uint8_t)x\<close> and \<^verbatim>\<open>(uint16_t)x\<close> of a float: the fraction is discarded,
  and the result is undefined when the integral part is not a value of the type
  (C11, 6.3.1.4).
\<close>

definition truncf :: "real \<Rightarrow> int" where
  "truncf x = (if 0 \<le> x then \<lfloor>x\<rfloor> else \<lceil>x\<rceil>)"

definition to_uint8 :: "real \<Rightarrow> u8 option" where
  "to_uint8 x = (if 0 \<le> truncf x \<and> truncf x \<le> 255 then Some (word_of_int (truncf x)) else None)"

definition to_uint16 :: "real \<Rightarrow> u16 option" where
  "to_uint16 x = (if 0 \<le> truncf x \<and> truncf x \<le> 65535 then Some (word_of_int (truncf x)) else None)"

definition of_uint8 :: "u8 \<Rightarrow> real" where
  "of_uint8 w = of_int (uint w)"

definition of_uint16 :: "u16 \<Rightarrow> real" where
  "of_uint16 w = of_int (uint w)"

text \<open>The assignments \<^verbatim>\<open>dstPixel[k] = (uint8_t)x\<close> and \<^verbatim>\<open>dstPixel[k] = (uint16_t)x\<close>.\<close>

definition put8 :: "u8 list \<Rightarrow> int \<Rightarrow> int \<Rightarrow> real \<Rightarrow> u8 list option" where
  "put8 buf p k x = do { v \<leftarrow> to_uint8 x; wr8 buf p k v }"

definition put16 :: "u16 list \<Rightarrow> int \<Rightarrow> int \<Rightarrow> real \<Rightarrow> u16 list option" where
  "put16 buf p k x = do { v \<leftarrow> to_uint16 x; wr16 buf p k v }"

text \<open>
  Modelled from the spec: \<^verbatim>\<open>clPixelMathRoundf\<close> of \<^verbatim>\<open>pixelmath.c\<close>, which is not among the
  sources. Section 4.H: "integer outputs use round-to-nearest (ties away from zero)",
  "\<^verbatim>\<open>floor(x+0.5)\<close>-equivalent".
\<close>

definition clPixelMathRoundf :: "real \<Rightarrow> real" where
  "clPixelMathRoundf x = (if 0 \<le> x then of_int \<lfloor>x + 1 / 2\<rfloor> else - of_int \<lfloor>- x + 1 / 2\<rfloor>)"

text \<open>The loop \<^verbatim>\<open>for (i = lo; i < n; ++i) body\<close> on a state that the body updates.\<close>

function for_loop :: "int \<Rightarrow> int \<Rightarrow> (int \<Rightarrow> 's \<Rightarrow> 's option) \<Rightarrow> 's \<Rightarrow> 's option" where
  "for_loop i n body s =
     (if i < n then (case body i s of None \<Rightarrow> None | Some s' \<Rightarrow> for_loop (i + 1) n body s')
      else Some s)"
  by pat_completeness auto
termination
  by (relation "measure (\<lambda>(i, n, body, s). nat (n - i))") auto

declare for_loop.simps [simp del]

text \<open>
  Every kernel of the pixel converter has the same loop head:
  \<^verbatim>\<open>for (i = 0; i < pixelCount; ++i) { srcPixel = &srcPixels[i * srcPixelBytes];
  dstPixel = &dstPixels[i * dstPixelBytes]; ... }\<close>. The body gets the two pixel pointers
  and the destination buffer.
\<close>

definition each_pixel ::
  "int \<Rightarrow> int \<Rightarrow> int \<Rightarrow> int \<Rightarrow> int \<Rightarrow> (int \<Rightarrow> int \<Rightarrow> 'd \<Rightarrow> 'd option) \<Rightarrow> 'd \<Rightarrow> 'd option" where
  "each_pixel srcPixels srcPixelBytes dstPixels dstPixelBytes pixelCount body dst =
     for_loop 0 pixelCount
       (\<lambda>i. body (srcPixels + i * srcPixelBytes) (dstPixels + i * dstPixelBytes)) dst"

section \<open>The transform (transform.c)\<close>

datatype clTransformFormat = CL_XF_XYZ | CL_XF_RGB | CL_XF_RGBA

datatype clTransformTransferFunction = CL_XTF_NONE | CL_XTF_GAMMA | CL_XTF_PQ

type_synonym gbVec3 = "real \<times> real \<times> real"

type_synonym gbMat3 = "gbVec3 \<times> gbVec3 \<times> gbVec3"

record 'p clTransform =
  srcProfile :: "'p option"
  dstProfile :: "'p option"
  srcFormat :: clTransformFormat
  dstFormat :: clTransformFormat
  transform_srcDepth :: int
  transform_dstDepth :: int
  ccmmReady :: bool
  matSrcToDst :: gbMat3
  srcEOTF :: clTransformTransferFunction
  srcGamma :: real
  dstOETF :: clTransformTransferFunction
  dstInvGamma :: real

text \<open>
  Modelled from the spec: \<^verbatim>\<open>gb_mat3_mul_vec3\<close> of the third-party \<^verbatim>\<open>gb_math.h\<close>, which is not
  among the sources. Section 4.H, step (c): "multiply by \<^verbatim>\<open>matSrcToDst\<close>". The matrix is the
  triple of its columns \<^verbatim>\<open>col[0]\<close>, \<^verbatim>\<open>col[1]\<close>, \<^verbatim>\<open>col[2]\<close>.
\<close>

definition gb_mat3_mul_vec3 :: "gbMat3 \<Rightarrow> gbVec3 \<Rightarrow> gbVec3" where
  "gb_mat3_mul_vec3 m v =
     (case m of ((ax, ay, az), (bx, by, bz), (cx, cy, cz)) \<Rightarrow>
      case v of (x, y, z) \<Rightarrow>
        (ax * x + bx * y + cx * z, ay * x + by * y + cy * z, az * x + bz * y + cz * z))"

definition nonneg :: "real \<Rightarrow> real" where
  "nonneg x = (if x \<ge> 0 then x else 0)"

text \<open>
  One iteration of the loop of \<^verbatim>\<open>transformFloatToFloat\<close> (lines 171-217), "the real color
  conversion function": it reads the floats of \<open>srcPixel\<close> and returns the floats it
  stores in \<^verbatim>\<open>dstPixel[0]\<close>, \<^verbatim>\<open>[1]\<close>, \<^verbatim>\<open>[2]\<close> and, when the destination has alpha,
  \<^verbatim>\<open>[3]\<close>. The wrappers call \<^verbatim>\<open>transformFloatToFloat\<close> with \<^verbatim>\<open>pixelCount = 1\<close> on a stack
  pixel; a stack pixel is the list of its cells that have been written.
\<close>

definition transformFloatToFloat_pixel ::
  "('p, 'x) clTransform_scheme \<Rightarrow> real list \<Rightarrow> int \<Rightarrow> int \<Rightarrow> int \<Rightarrow> real list option" where
  "transformFloatToFloat_pixel transform srcBuf srcPixel srcPixelBytes dstPixelBytes =
     do {
       s0 \<leftarrow> rdf srcBuf srcPixel 0;
       s1 \<leftarrow> rdf srcBuf srcPixel 1;
       s2 \<leftarrow> rdf srcBuf srcPixel 2;
       let src = (case srcEOTF transform of
                    CL_XTF_NONE \<Rightarrow> (s0, s1, s2)
                  | CL_XTF_GAMMA \<Rightarrow>
                      (powf (nonneg s0) (srcGamma transform),
                       powf (nonneg s1) (srcGamma transform),
                       powf (nonneg s2) (srcGamma transform))
                  | CL_XTF_PQ \<Rightarrow>
                      (PQ_EOTF (nonneg s0), PQ_EOTF (nonneg s1), PQ_EOTF (nonneg s2)));
       let tmp = gb_mat3_mul_vec3 (matSrcToDst transform) src;
       let d = (case dstOETF transform of
                  CL_XTF_NONE \<Rightarrow> tmp
                | CL_XTF_GAMMA \<Rightarrow>
                    (case tmp of (t0, t1, t2) \<Rightarrow>
                      (powf (nonneg t0) (dstInvGamma transform),
                       powf (nonneg t1) (dstInvGamma transform),
                       powf (nonneg t2) (dstInvGamma transform)))
                | CL_XTF_PQ \<Rightarrow>
                    (case tmp of (t0, t1, t2) \<Rightarrow>
                      (PQ_OETF (nonneg t0), PQ_OETF (nonneg t1), PQ_OETF (nonneg t2))));
       (case d of (d0, d1, d2) \<Rightarrow>
          if dstPixelBytes > 15 then
            (if srcPixelBytes > 15 then do { a \<leftarrow> rdf srcBuf srcPixel 3; Some [d0, d1, d2, a] }
             else Some [d0, d1, d2, 1])
          else Some [d0, d1, d2])
     }"

definition transformFloatToFloat ::
  "('p, 'x) clTransform_scheme \<Rightarrow> real list \<Rightarrow> int \<Rightarrow> int \<Rightarrow> real list \<Rightarrow> int \<Rightarrow> int \<Rightarrow> int
    \<Rightarrow> real list option" where
  "transformFloatToFloat transform src srcPixels srcPixelBytes dst dstPixels dstPixelBytes pixelCount =
     each_pixel srcPixels srcPixelBytes dstPixels dstPixelBytes pixelCount
       (\<lambda>srcPixel dstPixel dst. do {
          cells \<leftarrow> transformFloatToFloat_pixel transform src srcPixel srcPixelBytes dstPixelBytes;
          storef dst dstPixel 0 cells
        }) dst"

subsection \<open>Transform wrappers for RGB/RGBA\<close>

text \<open>
  \<^verbatim>\<open>transformFloatToRGB8\<close> (lines 223-245). The inner call gets \<open>dstPixelBytes\<close>, the size of the
  integer destination pixel, so it never writes \<^verbatim>\<open>tmpPixel[3]\<close>.
\<close>

definition transformFloatToRGB8 ::
  "('p, 'x) clTransform_scheme \<Rightarrow> real list \<Rightarrow> int \<Rightarrow> int \<Rightarrow> u8 list \<Rightarrow> int \<Rightarrow> int
    \<Rightarrow> int \<Rightarrow> u8 list option" where
  "transformFloatToRGB8 transform src srcPixels srcPixelBytes dst dstPixels dstPixelBytes pixelCount =
     (let maxChannel = (255 :: real)
      in each_pixel srcPixels srcPixelBytes dstPixels dstPixelBytes pixelCount
       (\<lambda>srcPixel dstPixel dst. do {
          tmpPixel \<leftarrow> transformFloatToFloat_pixel transform src srcPixel srcPixelBytes dstPixelBytes;
          t0 \<leftarrow> rd tmpPixel 0;
          dst \<leftarrow> put8 dst dstPixel 0 (clPixelMathRoundf (t0 * maxChannel));
          t1 \<leftarrow> rd tmpPixel 1;
          dst \<leftarrow> put8 dst dstPixel 1 (clPixelMathRoundf (t1 * maxChannel));
          t2 \<leftarrow> rd tmpPixel 2;
          dst \<leftarrow> put8 dst dstPixel 2 (clPixelMathRoundf (t2 * maxChannel));
          if dstPixelBytes > 3 then
            (if srcPixelBytes > 15 then do {
               t3 \<leftarrow> rd tmpPixel 3;
               put8 dst dstPixel 3 (clPixelMathRoundf (t3 * maxChannel)) }
             else wr8 dst dstPixel 3 255)
          else Some dst
        }) dst)"

text \<open>
  \<^verbatim>\<open>transformFloatToRGB16\<close> (lines 247-270). The inner call gets \<open>dstPixelBytes\<close>, the size of the
  integer destination pixel, so it never writes \<^verbatim>\<open>tmpPixel[3]\<close>.
\<close>

definition transformFloatToRGB16 ::
  "('p, 'x) clTransform_scheme \<Rightarrow> real list \<Rightarrow> int \<Rightarrow> int \<Rightarrow> u16 list \<Rightarrow> int \<Rightarrow> int \<Rightarrow> int
    \<Rightarrow> int \<Rightarrow> u16 list option" where
  "transformFloatToRGB16 transform src srcPixels srcPixelBytes dst dstPixels dstPixelBytes dstDepth pixelCount =
     (let dstMaxChannel = (2 ^ nat dstDepth - 1 :: int);
          dstRescale = (of_int dstMaxChannel :: real)
      in each_pixel srcPixels srcPixelBytes dstPixels dstPixelBytes pixelCount
       (\<lambda>srcPixel dstPixel dst. do {
          tmpPixel \<leftarrow> transformFloatToFloat_pixel transform src srcPixel srcPixelBytes dstPixelBytes;
          t0 \<leftarrow> rd tmpPixel 0;
          dst \<leftarrow> put16 dst dstPixel 0 (clPixelMathRoundf (t0 * dstRescale));
          t1 \<leftarrow> rd tmpPixel 1;
          dst \<leftarrow> put16 dst dstPixel 1 (clPixelMathRoundf (t1 * dstRescale));
          t2 \<leftarrow> rd tmpPixel 2;
          dst \<leftarrow> put16 dst dstPixel 2 (clPixelMathRoundf (t2 * dstRescale));
          if dstPixelBytes > 7 then
            (if srcPixelBytes > 15 then do {
               t3 \<leftarrow> rd tmpPixel 3;
               put16 dst dstPixel 3 (clPixelMathRoundf (t3 * dstRescale)) }
             else wr16 dst dstPixel 3 (word_of_int dstMaxChannel))
          else Some dst
        }) dst)"

text \<open>
  \<^verbatim>\<open>transformRGB8ToFloat\<close> (lines 272-294). The source computes \<^verbatim>\<open>dstPixel\<close> and does not use it: the
  inner call gets \<^verbatim>\<open>dstPixels\<close>, the start of the destination, as its destination.
\<close>

definition transformRGB8ToFloat ::
  "('p, 'x) clTransform_scheme \<Rightarrow> u8 list \<Rightarrow> int \<Rightarrow> int \<Rightarrow> real list \<Rightarrow> int \<Rightarrow> int
    \<Rightarrow> int \<Rightarrow> real list option" where
  "transformRGB8ToFloat transform src srcPixels srcPixelBytes dst dstPixels dstPixelBytes pixelCount =
     (let srcRescale = (1 / 255 :: real)
      in each_pixel srcPixels srcPixelBytes dstPixels dstPixelBytes pixelCount
       (\<lambda>srcPixel dstPixel dst. do {
          s0 \<leftarrow> rd8 src srcPixel 0;
          s1 \<leftarrow> rd8 src srcPixel 1;
          s2 \<leftarrow> rd8 src srcPixel 2;
          tmpPixel \<leftarrow>
            (if dstPixelBytes > 15 then
               (if srcPixelBytes > 3 then do {
                  s3 \<leftarrow> rd8 src srcPixel 3;
                  Some [of_uint8 s0 * srcRescale, of_uint8 s1 * srcRescale, of_uint8 s2 * srcRescale,
                        of_uint8 s3 * srcRescale] }
                else Some [of_uint8 s0 * srcRescale, of_uint8 s1 * srcRescale,
                           of_uint8 s2 * srcRescale, 1])
             else Some [of_uint8 s0 * srcRescale, of_uint8 s1 * srcRescale, of_uint8 s2 * srcRescale]);
          cells \<leftarrow> transformFloatToFloat_pixel transform tmpPixel 0 dstPixelBytes dstPixelBytes;
          storef dst dstPixels 0 cells
        }) dst)"

text \<open>
  \<^verbatim>\<open>transformRGB16ToFloat\<close> (lines 296-318). The source computes \<^verbatim>\<open>dstPixel\<close> and does not use it: the
  inner call gets \<^verbatim>\<open>dstPixels\<close>, the start of the destination, as its destination.
\<close>

definition transformRGB16ToFloat ::
  "('p, 'x) clTransform_scheme \<Rightarrow> u16 list \<Rightarrow> int \<Rightarrow> int \<Rightarrow> int \<Rightarrow> real list \<Rightarrow> int \<Rightarrow> int
    \<Rightarrow> int \<Rightarrow> real list option" where
  "transformRGB16ToFloat transform src srcPixels srcPixelBytes srcDepth dst dstPixels dstPixelBytes pixelCount =
     (let srcRescale = (1 / of_int (2 ^ nat srcDepth - 1 :: int) :: real)
      in each_pixel srcPixels srcPixelBytes dstPixels dstPixelBytes pixelCount
       (\<lambda>srcPixel dstPixel dst. do {
          s0 \<leftarrow> rd16 src srcPixel 0;
          s1 \<leftarrow> rd16 src srcPixel 1;
          s2 \<leftarrow> rd16 src srcPixel 2;
          tmpPixel \<leftarrow>
            (if dstPixelBytes > 15 then
               (if srcPixelBytes > 7 then do {
                  s3 \<leftarrow> rd16 src srcPixel 3;
                  Some [of_uint16 s0 * srcRescale, of_uint16 s1 * srcRescale, of_uint16 s2 * srcRescale,
                        of_uint16 s3 * srcRescale] }
                else Some [of_uint16 s0 * srcRescale, of_uint16 s1 * srcRescale,
                           of_uint16 s2 * srcRescale, 1])
             else Some [of_uint16 s0 * srcRescale, of_uint16 s1 * srcRescale, of_uint16 s2 * srcRescale]);
          cells \<leftarrow> transformFloatToFloat_pixel transform tmpPixel 0 dstPixelBytes dstPixelBytes;
          storef dst dstPixels 0 cells
        }) dst)"

text \<open>\<^verbatim>\<open>transformRGB8ToRGB8\<close> (lines 320-363).\<close>

definition transformRGB8ToRGB8 ::
  "('p, 'x) clTransform_scheme \<Rightarrow> u8 list \<Rightarrow> int \<Rightarrow> int \<Rightarrow> u8 list \<Rightarrow> int \<Rightarrow> int
    \<Rightarrow> int \<Rightarrow> u8 list option" where
  "transformRGB8ToRGB8 transform src srcPixels srcPixelBytes dst dstPixels dstPixelBytes pixelCount =
     (let srcRescale = (1 / 255 :: real);
          dstRescale = (255 :: real)
      in each_pixel srcPixels srcPixelBytes dstPixels dstPixelBytes pixelCount
       (\<lambda>srcPixel dstPixel dst. do {
          s0 \<leftarrow> rd8 src srcPixel 0;
          s1 \<leftarrow> rd8 src srcPixel 1;
          s2 \<leftarrow> rd8 src srcPixel 2;
          tmpSrc \<leftarrow>
            (if srcPixelBytes > 3 then do {
               s3 \<leftarrow> rd8 src srcPixel 3;
               Some [of_uint8 s0 * srcRescale, of_uint8 s1 * srcRescale, of_uint8 s2 * srcRescale,
                     of_uint8 s3 * srcRescale] }
             else Some [of_uint8 s0 * srcRescale, of_uint8 s1 * srcRescale, of_uint8 s2 * srcRescale]);
          let tmpSrcBytes = (if srcPixelBytes > 3 then 16 else 12 :: int);
          let tmpDstBytes = (if dstPixelBytes > 3 then 16 else 12 :: int);
          tmpDst \<leftarrow> transformFloatToFloat_pixel transform tmpSrc 0 tmpSrcBytes tmpDstBytes;
          t0 \<leftarrow> rd tmpDst 0;
          dst \<leftarrow> put8 dst dstPixel 0 (clPixelMathRoundf (t0 * dstRescale));
          t1 \<leftarrow> rd tmpDst 1;
          dst \<leftarrow> put8 dst dstPixel 1 (clPixelMathRoundf (t1 * dstRescale));
          t2 \<leftarrow> rd tmpDst 2;
          dst \<leftarrow> put8 dst dstPixel 2 (clPixelMathRoundf (t2 * dstRescale));
          if dstPixelBytes > 3 then
            (if srcPixelBytes > 3 then do {
               t3 \<leftarrow> rd tmpDst 3;
               put8 dst dstPixel 3 (clPixelMathRoundf (t3 * dstRescale)) }
             else wr8 dst dstPixel 3 255)
          else Some dst
        }) dst)"

text \<open>\<^verbatim>\<open>transformRGB8ToRGB16\<close> (lines 365-409).\<close>

definition transformRGB8ToRGB16 ::
  "('p, 'x) clTransform_scheme \<Rightarrow> u8 list \<Rightarrow> int \<Rightarrow> int \<Rightarrow> u16 list \<Rightarrow> int \<Rightarrow> int \<Rightarrow> int
    \<Rightarrow> int \<Rightarrow> u16 list option" where
  "transformRGB8ToRGB16 transform src srcPixels srcPixelBytes dst dstPixels dstPixelBytes dstDepth pixelCount =
     (let srcRescale = (1 / 255 :: real);
          dstMaxChannel = (2 ^ nat dstDepth - 1 :: int);
          dstRescale = (of_int dstMaxChannel :: real)
      in each_pixel srcPixels srcPixelBytes dstPixels dstPixelBytes pixelCount
       (\<lambda>srcPixel dstPixel dst. do {
          s0 \<leftarrow> rd8 src srcPixel 0;
          s1 \<leftarrow> rd8 src srcPixel 1;
          s2 \<leftarrow> rd8 src srcPixel 2;
          tmpSrc \<leftarrow>
            (if srcPixelBytes > 3 then do {
               s3 \<leftarrow> rd8 src srcPixel 3;
               Some [of_uint8 s0 * srcRescale, of_uint8 s1 * srcRescale, of_uint8 s2 * srcRescale,
                     of_uint8 s3 * srcRescale] }
             else Some [of_uint8 s0 * srcRescale, of_uint8 s1 * srcRescale, of_uint8 s2 * srcRescale]);
          let tmpSrcBytes = (if srcPixelBytes > 3 then 16 else 12 :: int);
          let tmpDstBytes = (if dstPixelBytes > 7 then 16 else 12 :: int);
          tmpDst \<leftarrow> transformFloatToFloat_pixel transform tmpSrc 0 tmpSrcBytes tmpDstBytes;
          t0 \<leftarrow> rd tmpDst 0;
          dst \<leftarrow> put16 dst dstPixel 0 (clPixelMathRoundf (t0 * dstRescale));
          t1 \<leftarrow> rd tmpDst 1;
          dst \<leftarrow> put16 dst dstPixel 1 (clPixelMathRoundf (t1 * dstRescale));
          t2 \<leftarrow> rd tmpDst 2;
          dst \<leftarrow> put16 dst dstPixel 2 (clPixelMathRoundf (t2 * dstRescale));
          if dstPixelBytes > 7 then
            (if srcPixelBytes > 3 then do {
               t3 \<leftarrow> rd tmpDst 3;
               put16 dst dstPixel 3 (clPixelMathRoundf (t3 * dstRescale)) }
             else wr16 dst dstPixel 3 (word_of_int dstMaxChannel))
          else Some dst
        }) dst)"

text \<open>\<^verbatim>\<open>transformRGB16ToRGB8\<close> (lines 411-455).\<close>

definition transformRGB16ToRGB8 ::
  "('p, 'x) clTransform_scheme \<Rightarrow> u16 list \<Rightarrow> int \<Rightarrow> int \<Rightarrow> int \<Rightarrow> u8 list \<Rightarrow> int \<Rightarrow> int
    \<Rightarrow> int \<Rightarrow> u8 list option" where
  "transformRGB16ToRGB8 transform src srcPixels srcPixelBytes srcDepth dst dstPixels dstPixelBytes pixelCount =
     (let srcMaxChannel = (2 ^ nat srcDepth - 1 :: int);
          srcRescale = (1 / of_int srcMaxChannel :: real);
          dstRescale = (255 :: real)
      in each_pixel srcPixels srcPixelBytes dstPixels dstPixelBytes pixelCount
       (\<lambda>srcPixel dstPixel dst. do {
          s0 \<leftarrow> rd16 src srcPixel 0;
          s1 \<leftarrow> rd16 src srcPixel 1;
          s2 \<leftarrow> rd16 src srcPixel 2;
          tmpSrc \<leftarrow>
            (if srcPixelBytes > 7 then do {
               s3 \<leftarrow> rd16 src srcPixel 3;
               Some [of_uint16 s0 * srcRescale, of_uint16 s1 * srcRescale, of_uint16 s2 * srcRescale,
                     of_uint16 s3 * srcRescale] }
             else Some [of_uint16 s0 * srcRescale, of_uint16 s1 * srcRescale, of_uint16 s2 * srcRescale]);
          let tmpSrcBytes = (if srcPixelBytes > 7 then 16 else 12 :: int);
          let tmpDstBytes = (if dstPixelBytes > 3 then 16 else 12 :: int);
          tmpDst \<leftarrow> transformFloatToFloat_pixel transform tmpSrc 0 tmpSrcBytes tmpDstBytes;
          t0 \<leftarrow> rd tmpDst 0;
          dst \<leftarrow> put8 dst dstPixel 0 (clPixelMathRoundf (t0 * dstRescale));
          t1 \<leftarrow> rd tmpDst 1;
          dst \<leftarrow> put8 dst dstPixel 1 (clPixelMathRoundf (t1 * dstRescale));
          t2 \<leftarrow> rd tmpDst 2;
          dst \<leftarrow> put8 dst dstPixel 2 (clPixelMathRoundf (t2 * dstRescale));
          if dstPixelBytes > 3 then
            (if srcPixelBytes > 7 then do {
               t3 \<leftarrow> rd tmpDst 3;
               put8 dst dstPixel 3 (clPixelMathRoundf (t3 * dstRescale)) }
             else wr8 dst dstPixel 3 255)
          else Some dst
        }) dst)"

text \<open>\<^verbatim>\<open>transformRGB16ToRGB16\<close> (lines 457-502).\<close>

definition transformRGB16ToRGB16 ::
  "('p, 'x) clTransform_scheme \<Rightarrow> u16 list \<Rightarrow> int \<Rightarrow> int \<Rightarrow> int \<Rightarrow> u16 list \<Rightarrow> int \<Rightarrow> int \<Rightarrow> int
    \<Rightarrow> int \<Rightarrow> u16 list option" where
  "transformRGB16ToRGB16 transform src srcPixels srcPixelBytes srcDepth dst dstPixels dstPixelBytes dstDepth pixelCount =
     (let srcMaxChannel = (2 ^ nat srcDepth - 1 :: int);
          srcRescale = (1 / of_int srcMaxChannel :: real);
          dstMaxChannel = (2 ^ nat dstDepth - 1 :: int);
          dstRescale = (of_int dstMaxChannel :: real)
      in each_pixel srcPixels srcPixelBytes dstPixels dstPixelBytes pixelCount
       (\<lambda>srcPixel dstPixel dst. do {
          s0 \<leftarrow> rd16 src srcPixel 0;
          s1 \<leftarrow> rd16 src srcPixel 1;
          s2 \<leftarrow> rd16 src srcPixel 2;
          tmpSrc \<leftarrow>
            (if srcPixelBytes > 7 then do {
               s3 \<leftarrow> rd16 src srcPixel 3;
               Some [of_uint16 s0 * srcRescale, of_uint16 s1 * srcRescale, of_uint16 s2 * srcRescale,
                     of_uint16 s3 * srcRescale] }
             else Some [of_uint16 s0 * srcRescale, of_uint16 s1 * srcRescale, of_uint16 s2 * srcRescale]);
          let tmpSrcBytes = (if srcPixelBytes > 7 then 16 else 12 :: int);
          let tmpDstBytes = (if dstPixelBytes > 7 then 16 else 12 :: int);
          tmpDst \<leftarrow> transformFloatToFloat_pixel transform tmpSrc 0 tmpSrcBytes tmpDstBytes;
          t0 \<leftarrow> rd tmpDst 0;
          dst \<leftarrow> put16 dst dstPixel 0 (clPixelMathRoundf (t0 * dstRescale));
          t1 \<leftarrow> rd tmpDst 1;
          dst \<leftarrow> put16 dst dstPixel 1 (clPixelMathRoundf (t1 * dstRescale));
          t2 \<leftarrow> rd tmpDst 2;
          dst \<leftarrow> put16 dst dstPixel 2 (clPixelMathRoundf (t2 * dstRescale));
          if dstPixelBytes > 7 then
            (if srcPixelBytes > 7 then do {
               t3 \<leftarrow> rd tmpDst 3;
               put16 dst dstPixel 3 (clPixelMathRoundf (t3 * dstRescale)) }
             else wr16 dst dstPixel 3 (word_of_int dstMaxChannel))
          else Some dst
        }) dst)"

subsection \<open>Reformatting (lines 504-705)\<close>

definition reformatFloatToFloat ::
  "real list \<Rightarrow> int \<Rightarrow> int \<Rightarrow> real list \<Rightarrow> int \<Rightarrow> int \<Rightarrow> int \<Rightarrow> real list option" where
  "reformatFloatToFloat src srcPixels srcPixelBytes dst dstPixels dstPixelBytes pixelCount =
     each_pixel srcPixels srcPixelBytes dstPixels dstPixelBytes pixelCount
       (\<lambda>srcPixel dstPixel dst. do {
          s0 \<leftarrow> rdf src srcPixel 0;
          s1 \<leftarrow> rdf src srcPixel 1;
          s2 \<leftarrow> rdf src srcPixel 2;
          dst \<leftarrow> storef dst dstPixel 0 [s0, s1, s2];
          if dstPixelBytes > 15 then
            (if srcPixelBytes > 15 then do { s3 \<leftarrow> rdf src srcPixel 3; wrf dst dstPixel 3 s3 }
             else wrf dst dstPixel 3 1)
          else Some dst
        }) dst"

definition reformatFloatToRGB8 ::
  "real list \<Rightarrow> int \<Rightarrow> int \<Rightarrow> u8 list \<Rightarrow> int \<Rightarrow> int \<Rightarrow> int \<Rightarrow> u8 list option" where
  "reformatFloatToRGB8 src srcPixels srcPixelBytes dst dstPixels dstPixelBytes pixelCount =
     (let dstRescale = (255 :: real)
      in each_pixel srcPixels srcPixelBytes dstPixels dstPixelBytes pixelCount
       (\<lambda>srcPixel dstPixel dst. do {
          s0 \<leftarrow> rdf src srcPixel 0;
          dst \<leftarrow> put8 dst dstPixel 0 (clPixelMathRoundf (s0 * dstRescale));
          s1 \<leftarrow> rdf src srcPixel 1;
          dst \<leftarrow> put8 dst dstPixel 1 (clPixelMathRoundf (s1 * dstRescale));
          s2 \<leftarrow> rdf src srcPixel 2;
          dst \<leftarrow> put8 dst dstPixel 2 (clPixelMathRoundf (s2 * dstRescale));
          if dstPixelBytes > 3 then
            (if srcPixelBytes > 15 then do {
               s3 \<leftarrow> rdf src srcPixel 3;
               put8 dst dstPixel 3 (clPixelMathRoundf (s3 * dstRescale)) }
             else wr8 dst dstPixel 3 255)
          else Some dst
        }) dst)"

definition reformatFloatToRGB16 ::
  "real list \<Rightarrow> int \<Rightarrow> int \<Rightarrow> u16 list \<Rightarrow> int \<Rightarrow> int \<Rightarrow> int \<Rightarrow> int \<Rightarrow> u16 list option" where
  "reformatFloatToRGB16 src srcPixels srcPixelBytes dst dstPixels dstPixelBytes dstDepth pixelCount =
     (let dstMaxChannel = (2 ^ nat dstDepth - 1 :: int);
          dstRescale = (of_int dstMaxChannel :: real)
      in each_pixel srcPixels srcPixelBytes dstPixels dstPixelBytes pixelCount
       (\<lambda>srcPixel dstPixel dst. do {
          s0 \<leftarrow> rdf src srcPixel 0;
          dst \<leftarrow> put16 dst dstPixel 0 (clPixelMathRoundf (s0 * dstRescale));
          s1 \<leftarrow> rdf src srcPixel 1;
          dst \<leftarrow> put16 dst dstPixel 1 (clPixelMathRoundf (s1 * dstRescale));
          s2 \<leftarrow> rdf src srcPixel 2;
          dst \<leftarrow> put16 dst dstPixel 2 (clPixelMathRoundf (s2 * dstRescale));
          if dstPixelBytes > 7 then
            (if srcPixelBytes > 15 then do {
               s3 \<leftarrow> rdf src srcPixel 3;
               put16 dst dstPixel 3 (clPixelMathRoundf (s3 * dstRescale)) }
             else wr16 dst dstPixel 3 (word_of_int dstMaxChannel))
          else Some dst
        }) dst)"

definition reformatRGB8ToFloat ::
  "u8 list \<Rightarrow> int \<Rightarrow> int \<Rightarrow> real list \<Rightarrow> int \<Rightarrow> int \<Rightarrow> int \<Rightarrow> real list option" where
  "reformatRGB8ToFloat src srcPixels srcPixelBytes dst dstPixels dstPixelBytes pixelCount =
     (let srcRescale = (1 / 255 :: real)
      in each_pixel srcPixels srcPixelBytes dstPixels dstPixelBytes pixelCount
       (\<lambda>srcPixel dstPixel dst. do {
          s0 \<leftarrow> rd8 src srcPixel 0;
          dst \<leftarrow> wrf dst dstPixel 0 (of_uint8 s0 * srcRescale);
          s1 \<leftarrow> rd8 src srcPixel 1;
          dst \<leftarrow> wrf dst dstPixel 1 (of_uint8 s1 * srcRescale);
          s2 \<leftarrow> rd8 src srcPixel 2;
          dst \<leftarrow> wrf dst dstPixel 2 (of_uint8 s2 * srcRescale);
          if dstPixelBytes > 15 then
            (if srcPixelBytes > 3 then do {
               s3 \<leftarrow> rd8 src srcPixel 3;
               wrf dst dstPixel 3 (of_uint8 s3 * srcRescale) }
             else wrf dst dstPixel 3 1)
          else Some dst
        }) dst)"

definition reformatRGB16ToFloat ::
  "u16 list \<Rightarrow> int \<Rightarrow> int \<Rightarrow> int \<Rightarrow> real list \<Rightarrow> int \<Rightarrow> int \<Rightarrow> int \<Rightarrow> real list option" where
  "reformatRGB16ToFloat src srcPixels srcPixelBytes srcDepth dst dstPixels dstPixelBytes pixelCount =
     (let srcMaxChannel = (2 ^ nat srcDepth - 1 :: int);
          srcRescale = (1 / of_int srcMaxChannel :: real)
      in each_pixel srcPixels srcPixelBytes dstPixels dstPixelBytes pixelCount
       (\<lambda>srcPixel dstPixel dst. do {
          s0 \<leftarrow> rd16 src srcPixel 0;
          dst \<leftarrow> wrf dst dstPixel 0 (of_uint16 s0 * srcRescale);
          s1 \<leftarrow> rd16 src srcPixel 1;
          dst \<leftarrow> wrf dst dstPixel 1 (of_uint16 s1 * srcRescale);
          s2 \<leftarrow> rd16 src srcPixel 2;
          dst \<leftarrow> wrf dst dstPixel 2 (of_uint16 s2 * srcRescale);
          if dstPixelBytes > 15 then
            (if srcPixelBytes > 7 then do {
               s3 \<leftarrow> rd16 src srcPixel 3;
               wrf dst dstPixel 3 (of_uint16 s3 * srcRescale) }
             else wrf dst dstPixel 3 1)
          else Some dst
        }) dst)"

definition reformatRGB8ToRGB8 ::
  "u8 list \<Rightarrow> int \<Rightarrow> int \<Rightarrow> u8 list \<Rightarrow> int \<Rightarrow> int \<Rightarrow> int \<Rightarrow> u8 list option" where
  "reformatRGB8ToRGB8 src srcPixels srcPixelBytes dst dstPixels dstPixelBytes pixelCount =
     each_pixel srcPixels srcPixelBytes dstPixels dstPixelBytes pixelCount
       (\<lambda>srcPixel dstPixel dst. do {
          s0 \<leftarrow> rd8 src srcPixel 0;
          dst \<leftarrow> wr8 dst dstPixel 0 s0;
          s1 \<leftarrow> rd8 src srcPixel 1;
          dst \<leftarrow> wr8 dst dstPixel 1 s1;
          s2 \<leftarrow> rd8 src srcPixel 2;
          dst \<leftarrow> wr8 dst dstPixel 2 s2;
          if dstPixelBytes > 3 then
            (if srcPixelBytes > 3 then do { s3 \<leftarrow> rd8 src srcPixel 3; wr8 dst dstPixel 3 s3 }
             else wr8 dst dstPixel 3 255)
          else Some dst
        }) dst"

text \<open>
  \<^verbatim>\<open>reformatRGB16ToRGB16\<close> (lines 635-658) converts with the bare cast
  \<^verbatim>\<open>(uint16_t)((float)srcPixel[0] * rescale)\<close>; it does not call \<^verbatim>\<open>clPixelMathRoundf\<close>.
\<close>

definition reformatRGB16ToRGB16 ::
  "u16 list \<Rightarrow> int \<Rightarrow> int \<Rightarrow> int \<Rightarrow> u16 list \<Rightarrow> int \<Rightarrow> int \<Rightarrow> int \<Rightarrow> int \<Rightarrow> u16 list option" where
  "reformatRGB16ToRGB16 src srcPixels srcPixelBytes srcDepth dst dstPixels dstPixelBytes dstDepth pixelCount =
     (let srcMaxChannel = (2 ^ nat srcDepth - 1 :: int);
          srcRescale = (1 / of_int srcMaxChannel :: real);
          dstMaxChannel = (2 ^ nat dstDepth - 1 :: int);
          dstRescale = (of_int dstMaxChannel :: real);
          rescale = srcRescale * dstRescale
      in each_pixel srcPixels srcPixelBytes dstPixels dstPixelBytes pixelCount
       (\<lambda>srcPixel dstPixel dst. do {
          s0 \<leftarrow> rd16 src srcPixel 0;
          dst \<leftarrow> put16 dst dstPixel 0 (of_uint16 s0 * rescale);
          s1 \<leftarrow> rd16 src srcPixel 1;
          dst \<leftarrow> put16 dst dstPixel 1 (of_uint16 s1 * rescale);
          s2 \<leftarrow> rd16 src srcPixel 2;
          dst \<leftarrow> put16 dst dstPixel 2 (of_uint16 s2 * rescale);
          if dstPixelBytes > 7 then
            (if srcPixelBytes > 7 then do {
               s3 \<leftarrow> rd16 src srcPixel 3;
               put16 dst dstPixel 3 (of_uint16 s3 * rescale) }
             else wr16 dst dstPixel 3 (word_of_int dstMaxChannel))
          else Some dst
        }) dst)"

definition reformatRGB8ToRGB16 ::
  "u8 list \<Rightarrow> int \<Rightarrow> int \<Rightarrow> u16 list \<Rightarrow> int \<Rightarrow> int \<Rightarrow> int \<Rightarrow> int \<Rightarrow> u16 list option" where
  "reformatRGB8ToRGB16 src srcPixels srcPixelBytes dst dstPixels dstPixelBytes dstDepth pixelCount =
     (let dstMaxChannel = (2 ^ nat dstDepth - 1 :: int);
          dstRescale = (of_int dstMaxChannel :: real);
          rescale = dstRescale / 255
      in each_pixel srcPixels srcPixelBytes dstPixels dstPixelBytes pixelCount
       (\<lambda>srcPixel dstPixel dst. do {
          s0 \<leftarrow> rd8 src srcPixel 0;
          dst \<leftarrow> put16 dst dstPixel 0 (clPixelMathRoundf (of_uint8 s0 * rescale));
          s1 \<leftarrow> rd8 src srcPixel 1;
          dst \<leftarrow> put16 dst dstPixel 1 (clPixelMathRoundf (of_uint8 s1 * rescale));
          s2 \<leftarrow> rd8 src srcPixel 2;
          dst \<leftarrow> put16 dst dstPixel 2 (clPixelMathRoundf (of_uint8 s2 * rescale));
          if dstPixelBytes > 7 then
            (if srcPixelBytes > 3 then do {
               s3 \<leftarrow> rd8 src srcPixel 3;
               put16 dst dstPixel 3 (clPixelMathRoundf (of_uint8 s3 * rescale)) }
             else wr16 dst dstPixel 3 (word_of_int dstMaxChannel))
          else Some dst
        }) dst)"

definition reformatRGB16ToRGB8 ::
  "u16 list \<Rightarrow> int \<Rightarrow> int \<Rightarrow> int \<Rightarrow> u8 list \<Rightarrow> int \<Rightarrow> int \<Rightarrow> int \<Rightarrow> u8 list option" where
  "reformatRGB16ToRGB8 src srcPixels srcPixelBytes srcDepth dst dstPixels dstPixelBytes pixelCount =
     (let srcMaxChannel = (2 ^ nat srcDepth - 1 :: int);
          rescale = (255 / of_int srcMaxChannel :: real)
      in each_pixel srcPixels srcPixelBytes dstPixels dstPixelBytes pixelCount
       (\<lambda>srcPixel dstPixel dst. do {
          s0 \<leftarrow> rd16 src srcPixel 0;
          dst \<leftarrow> put8 dst dstPixel 0 (clPixelMathRoundf (of_uint16 s0 * rescale));
          s1 \<leftarrow> rd16 src srcPixel 1;
          dst \<leftarrow> put8 dst dstPixel 1 (clPixelMathRoundf (of_uint16 s1 * rescale));
          s2 \<leftarrow> rd16 src srcPixel 2;
          dst \<leftarrow> put8 dst dstPixel 2 (clPixelMathRoundf (of_uint16 s2 * rescale));
          if dstPixelBytes > 3 then
            (if srcPixelBytes > 7 then do {
               s3 \<leftarrow> rd16 src srcPixel 3;
               put8 dst dstPixel 3 (clPixelMathRoundf (of_uint16 s3 * rescale)) }
             else wr8 dst dstPixel 3 255)
          else Some dst
        }) dst)"

subsection \<open>Transform entry point (lines 707-811, 883-920)\<close>

definition USES_UINT8_T :: "int \<Rightarrow> bool" where
  "USES_UINT8_T V = (V = 8)"

definition USES_UINT16_T :: "int \<Rightarrow> bool" where
  "USES_UINT16_T V = ((V \<ge> 9) \<and> (V \<le> 16))"

definition clTransformFormatIsFloat :: "clTransformFormat \<Rightarrow> int \<Rightarrow> bool" where
  "clTransformFormatIsFloat format depth =
     (case format of
        CL_XF_XYZ \<Rightarrow> True
      | CL_XF_RGB \<Rightarrow> depth = 32
      | CL_XF_RGBA \<Rightarrow> depth = 32)"

definition clTransformFormatToPixelBytes :: "clTransformFormat \<Rightarrow> int \<Rightarrow> int" where
  "clTransformFormatToPixelBytes format depth =
     (case format of
        CL_XF_XYZ \<Rightarrow> 4 * 3
      | CL_XF_RGB \<Rightarrow> (if depth = 32 then 4 * 3 else if depth > 8 then 2 * 3 else 1 * 3)
      | CL_XF_RGBA \<Rightarrow> (if depth = 32 then 4 * 4 else if depth > 8 then 2 * 4 else 1 * 4))"

text \<open>
  The buffers reach the entry point as \<^verbatim>\<open>void *\<close>; the kernel that the dispatch selects
  decides how the samples are read. In the model a buffer carries its sample type, and a
  kernel applied to a buffer of another sample type has no result.
\<close>

datatype pixels = U8 "u8 list" | U16 "u16 list" | F32 "real list"

definition as_u8 :: "pixels \<Rightarrow> u8 list option" where
  "as_u8 b = (case b of U8 xs \<Rightarrow> Some xs | _ \<Rightarrow> None)"

definition as_u16 :: "pixels \<Rightarrow> u16 list option" where
  "as_u16 b = (case b of U16 xs \<Rightarrow> Some xs | _ \<Rightarrow> None)"

definition as_f32 :: "pixels \<Rightarrow> real list option" where
  "as_f32 b = (case b of F32 xs \<Rightarrow> Some xs | _ \<Rightarrow> None)"

text \<open>
  The context \<^verbatim>\<open>C\<close>, as far as the pixel engine uses it. \<^verbatim>\<open>clProfileMatches\<close> and the
  \<^verbatim>\<open>ccmm\<close> flag of a profile belong to files that are not among the sources, and
  \<^verbatim>\<open>cmsDoTransform\<close> (applied to the \<^verbatim>\<open>hTransform\<close> of the transform) is LittleCMS: the three
  are parameters of the model.
\<close>

record 'p clContext =
  clProfileMatches :: "'p option \<Rightarrow> 'p option \<Rightarrow> bool"
  profile_ccmm :: "'p \<Rightarrow> bool"
  cmsDoTransform :: "pixels \<Rightarrow> int \<Rightarrow> pixels \<Rightarrow> int \<Rightarrow> int \<Rightarrow> pixels option"

text \<open>
  \<^verbatim>\<open>clCCMMTransform\<close>. The three assertions come first; the fall-through to
  \<^verbatim>\<open>COLORIST_FAILURE\<close> is \<open>None\<close>. The fields \<open>transform_srcDepth\<close> and
  \<open>transform_dstDepth\<close> are \<^verbatim>\<open>transform->srcDepth\<close> and \<^verbatim>\<open>transform->dstDepth\<close>.
\<close>

definition clCCMMTransform ::
  "'p clContext \<Rightarrow> 'p clTransform \<Rightarrow> pixels \<Rightarrow> int \<Rightarrow> pixels \<Rightarrow> int \<Rightarrow> int \<Rightarrow> pixels option" where
  "clCCMMTransform C transform src srcPixels dst dstPixels pixelCount =
     (let srcDepth = transform_srcDepth transform;
          dstDepth = transform_dstDepth transform;
          srcPixelBytes = clTransformFormatToPixelBytes (srcFormat transform) srcDepth;
          dstPixelBytes = clTransformFormatToPixelBytes (dstFormat transform) dstDepth
      in
      if \<not> (case srcProfile transform of None \<Rightarrow> True | Some p \<Rightarrow> profile_ccmm C p) then None
      else if \<not> (case dstProfile transform of None \<Rightarrow> True | Some p \<Rightarrow> profile_ccmm C p) then None
      else if \<not> ccmmReady transform then None
      else if clProfileMatches C (srcProfile transform) (dstProfile transform) then
        (if clTransformFormatIsFloat (srcFormat transform) srcDepth
             \<and> clTransformFormatIsFloat (dstFormat transform) dstDepth then
           do { s \<leftarrow> as_f32 src; d \<leftarrow> as_f32 dst;
                r \<leftarrow> reformatFloatToFloat s srcPixels srcPixelBytes d dstPixels dstPixelBytes pixelCount;
                Some (F32 r) }
         else if clTransformFormatIsFloat (srcFormat transform) srcDepth then
           (if USES_UINT8_T dstDepth then
              do { s \<leftarrow> as_f32 src; d \<leftarrow> as_u8 dst;
                   r \<leftarrow> reformatFloatToRGB8 s srcPixels srcPixelBytes d dstPixels dstPixelBytes pixelCount;
                   Some (U8 r) }
            else if USES_UINT16_T dstDepth then
              do { s \<leftarrow> as_f32 src; d \<leftarrow> as_u16 dst;
                   r \<leftarrow> reformatFloatToRGB16 s srcPixels srcPixelBytes d dstPixels dstPixelBytes dstDepth
                         pixelCount;
                   Some (U16 r) }
            else None)
         else if clTransformFormatIsFloat (dstFormat transform) dstDepth then
           (if USES_UINT8_T srcDepth then
              do { s \<leftarrow> as_u8 src; d \<leftarrow> as_f32 dst;
                   r \<leftarrow> reformatRGB8ToFloat s srcPixels srcPixelBytes d dstPixels dstPixelBytes pixelCount;
                   Some (F32 r) }
            else if USES_UINT16_T srcDepth then
              do { s \<leftarrow> as_u16 src; d \<leftarrow> as_f32 dst;
                   r \<leftarrow> reformatRGB16ToFloat s srcPixels srcPixelBytes srcDepth d dstPixels dstPixelBytes
                         pixelCount;
                   Some (F32 r) }
            else None)
         else
           (if USES_UINT8_T srcDepth \<and> USES_UINT8_T dstDepth then
              do { s \<leftarrow> as_u8 src; d \<leftarrow> as_u8 dst;
                   r \<leftarrow> reformatRGB8ToRGB8 s srcPixels srcPixelBytes d dstPixels dstPixelBytes pixelCount;
                   Some (U8 r) }
            else if USES_UINT8_T srcDepth \<and> USES_UINT16_T dstDepth then
              do { s \<leftarrow> as_u8 src; d \<leftarrow> as_u16 dst;
                   r \<leftarrow> reformatRGB8ToRGB16 s srcPixels srcPixelBytes d dstPixels dstPixelBytes dstDepth
                         pixelCount;
                   Some (U16 r) }
            else if USES_UINT16_T srcDepth \<and> USES_UINT8_T dstDepth then
              do { s \<leftarrow> as_u16 src; d \<leftarrow> as_u8 dst;
                   r \<leftarrow> reformatRGB16ToRGB8 s srcPixels srcPixelBytes srcDepth d dstPixels dstPixelBytes
                         pixelCount;
                   Some (U8 r) }
            else if USES_UINT16_T srcDepth \<and> USES_UINT16_T dstDepth then
              do { s \<leftarrow> as_u16 src; d \<leftarrow> as_u16 dst;
                   r \<leftarrow> reformatRGB16ToRGB16 s srcPixels srcPixelBytes srcDepth d dstPixels dstPixelBytes
                         dstDepth pixelCount;
                   Some (U16 r) }
            else None))
      else
        (if clTransformFormatIsFloat (srcFormat transform) srcDepth
             \<and> clTransformFormatIsFloat (dstFormat transform) dstDepth then
           do { s \<leftarrow> as_f32 src; d \<leftarrow> as_f32 dst;
                r \<leftarrow> transformFloatToFloat transform s srcPixels srcPixelBytes d dstPixels dstPixelBytes pixelCount;
                Some (F32 r) }
         else if clTransformFormatIsFloat (srcFormat transform) srcDepth then
           (if USES_UINT8_T dstDepth then
              do { s \<leftarrow> as_f32 src; d \<leftarrow> as_u8 dst;
                   r \<leftarrow> transformFloatToRGB8 transform s srcPixels srcPixelBytes d dstPixels dstPixelBytes pixelCount;
                   Some (U8 r) }
            else if USES_UINT16_T dstDepth then
              do { s \<leftarrow> as_f32 src; d \<leftarrow> as_u16 dst;
                   r \<leftarrow> transformFloatToRGB16 transform s srcPixels srcPixelBytes d dstPixels dstPixelBytes dstDepth
                         pixelCount;
                   Some (U16 r) }
            else None)
         else if clTransformFormatIsFloat (dstFormat transform) dstDepth then
           (if USES_UINT8_T srcDepth then
              do { s \<leftarrow> as_u8 src; d \<leftarrow> as_f32 dst;
                   r \<leftarrow> transformRGB8ToFloat transform s srcPixels srcPixelBytes d dstPixels dstPixelBytes pixelCount;
                   Some (F32 r) }
            else if USES_UINT16_T srcDepth then
              do { s \<leftarrow> as_u16 src; d \<leftarrow> as_f32 dst;
                   r \<leftarrow> transformRGB16ToFloat transform s srcPixels srcPixelBytes srcDepth d dstPixels dstPixelBytes
                         pixelCount;
                   Some (F32 r) }
            else None)
         else
           (if USES_UINT8_T srcDepth \<and> USES_UINT8_T dstDepth then
              do { s \<leftarrow> as_u8 src; d \<leftarrow> as_u8 dst;
                   r \<leftarrow> transformRGB8ToRGB8 transform s srcPixels srcPixelBytes d dstPixels dstPixelBytes pixelCount;
                   Some (U8 r) }
            else if USES_UINT8_T srcDepth \<and> USES_UINT16_T dstDepth then
              do { s \<leftarrow> as_u8 src; d \<leftarrow> as_u16 dst;
                   r \<leftarrow> transformRGB8ToRGB16 transform s srcPixels srcPixelBytes d dstPixels dstPixelBytes dstDepth
                         pixelCount;
                   Some (U16 r) }
            else if USES_UINT16_T srcDepth \<and> USES_UINT8_T dstDepth then
              do { s \<leftarrow> as_u16 src; d \<leftarrow> as_u8 dst;
                   r \<leftarrow> transformRGB16ToRGB8 transform s srcPixels srcPixelBytes srcDepth d dstPixels dstPixelBytes
                         pixelCount;
                   Some (U8 r) }
            else if USES_UINT16_T srcDepth \<and> USES_UINT16_T dstDepth then
              do { s \<leftarrow> as_u16 src; d \<leftarrow> as_u16 dst;
                   r \<leftarrow> transformRGB16ToRGB16 transform s srcPixels srcPixelBytes srcDepth d dstPixels dstPixelBytes
                         dstDepth pixelCount;
                   Some (U16 r) }
            else None)))"

subsection \<open>Task runner (lines 991-1052)\<close>

text \<open>
  A task record. \<^verbatim>\<open>C\<close> and \<^verbatim>\<open>transform\<close> are the same in every task and are passed beside
  it; \<open>inPixels\<close> and \<open>outPixels\<close> are byte pointers into the two buffers.
\<close>

record clTransformTask =
  inPixels :: int
  outPixels :: int
  task_pixelCount :: int
  task_useCCMM :: bool

definition transformTaskFunc ::
  "'p clContext \<Rightarrow> 'p clTransform \<Rightarrow> pixels \<Rightarrow> pixels \<Rightarrow> clTransformTask \<Rightarrow> pixels option" where
  "transformTaskFunc C transform src dst info =
     (if task_useCCMM info then
        clCCMMTransform C transform src (inPixels info) dst (outPixels info) (task_pixelCount info)
      else
        cmsDoTransform C src (inPixels info) dst (outPixels info) (task_pixelCount info))"

datatype fault = DivisionByZero | OutOfBounds | UninitialisedRead | WorkerFault

text \<open>
  The \<^verbatim>\<open>infos\<close> array that the first loop of the \<^verbatim>\<open>else\<close> branch fills (lines 1027-1043),
  for a task count that is not zero: task \<open>i\<close> starts \<open>i * pixelsPerTask\<close> pixels into
  both buffers. The division of C truncates (\<open>sdiv\<close>).
\<close>

definition transformTaskInfos ::
  "int \<Rightarrow> bool \<Rightarrow> int \<Rightarrow> int \<Rightarrow> int \<Rightarrow> int \<Rightarrow> int \<Rightarrow> clTransformTask list" where
  "transformTaskInfos taskCount useCCMM srcPixels srcPixelBytes dstPixels dstPixelBytes pixelCount =
     (let pixelsPerTask = pixelCount sdiv taskCount;
          lastTaskPixelCount = pixelCount - (pixelsPerTask * (taskCount - 1))
      in map (\<lambda>i. \<lparr> inPixels = srcPixels + i * pixelsPerTask * srcPixelBytes,
                     outPixels = dstPixels + i * pixelsPerTask * dstPixelBytes,
                     task_pixelCount = (if i = taskCount - 1 then lastTaskPixelCount else pixelsPerTask),
                     task_useCCMM = useCCMM \<rparr>)
           [0..taskCount - 1])"

text \<open>
  The workers write disjoint memory and are joined before the function returns; the model
  runs the tasks one after the other, in the order of the array.
\<close>

fun run_tasks ::
  "'p clContext \<Rightarrow> 'p clTransform \<Rightarrow> pixels \<Rightarrow> pixels \<Rightarrow> clTransformTask list \<Rightarrow> pixels option" where
  "run_tasks C transform src dst [] = Some dst"
| "run_tasks C transform src dst (info # infos) =
     do { dst' \<leftarrow> transformTaskFunc C transform src dst info;
          run_tasks C transform src dst' infos }"

definition worker_result :: "pixels option \<Rightarrow> fault + pixels" where
  "worker_result r = (case r of None \<Rightarrow> Inl WorkerFault | Some dst \<Rightarrow> Inr dst)"

definition doMultithreadedTransform ::
  "'p clContext \<Rightarrow> int \<Rightarrow> 'p clTransform \<Rightarrow> bool \<Rightarrow> pixels \<Rightarrow> int \<Rightarrow> int \<Rightarrow> pixels \<Rightarrow> int \<Rightarrow> int
    \<Rightarrow> int \<Rightarrow> fault + pixels" where
  "doMultithreadedTransform C taskCount transform useCCMM src srcPixels srcPixelBytes
       dst dstPixels dstPixelBytes pixelCount =
     (let taskCount = (if taskCount > pixelCount then pixelCount else taskCount)
      in
      if taskCount = 1 then
        worker_result (transformTaskFunc C transform src dst
          \<lparr> inPixels = srcPixels, outPixels = dstPixels, task_pixelCount = pixelCount,
            task_useCCMM = useCCMM \<rparr>)
      else if taskCount = 0 then Inl DivisionByZero
      else
        worker_result (run_tasks C transform src dst
          (transformTaskInfos taskCount useCCMM srcPixels srcPixelBytes dstPixels dstPixelBytes
             pixelCount)))"

section \<open>Profile query (profile.c, lines 273-440)\<close>

type_synonym cmsCIEXYZ = "real \<times> real \<times> real"

type_synonym cmsVEC3 = "real \<times> real \<times> real"

type_synonym cmsMAT3 = "cmsVEC3 \<times> cmsVEC3 \<times> cmsVEC3"

text \<open>
  A profile handle belongs to LittleCMS. The model of a handle is what the readers of
  LittleCMS return for it: \<^verbatim>\<open>cmsReadTag\<close> for the colorant, white point, tone curve and
  luminance tags (\<open>None\<close> is \<^verbatim>\<open>NULL\<close>), the bytes \<^verbatim>\<open>cmsReadRawTag\<close> copies for \<^verbatim>\<open>A2B0\<close>
  (no byte when the tag is absent), \<^verbatim>\<open>_cmsReadCHAD\<close>, \<^verbatim>\<open>cmsGetEncodedICCversion\<close> and
  \<^verbatim>\<open>cmsIsTag\<close> for \<^verbatim>\<open>chad\<close>. Of the tone curve the query uses
  \<^verbatim>\<open>cmsGetToneCurveParametricType\<close> and \<^verbatim>\<open>cmsEstimateGamma\<close>.
\<close>

record cmsHPROFILE =
  RedColorantTag :: "cmsCIEXYZ option"
  GreenColorantTag :: "cmsCIEXYZ option"
  BlueColorantTag :: "cmsCIEXYZ option"
  MediaWhitePointTag :: "cmsCIEXYZ option"
  AToB0Tag :: "u8 list"
  ReadCHAD :: "cmsMAT3 option"
  EncodedICCversion :: u32
  IsTag_ChromaticAdaptationTag :: bool
  RedTRCTag :: "(int \<times> real) option"
  LuminanceTag :: "cmsCIEXYZ option"

record clProfile =
  handle :: cmsHPROFILE
  description :: "string option"

text \<open>The arithmetic of LittleCMS that the query calls, as parameters.\<close>

record lcms =
  cmsMAT3inverse :: "cmsMAT3 \<Rightarrow> cmsMAT3 option"
  cmsMAT3per :: "cmsMAT3 \<Rightarrow> cmsMAT3 \<Rightarrow> cmsMAT3"
  cmsMAT3eval :: "cmsMAT3 \<Rightarrow> cmsVEC3 \<Rightarrow> cmsVEC3"
  cmsXYZ2xyY :: "cmsCIEXYZ \<Rightarrow> real \<times> real \<times> real"
  cms15Fixed16toDouble :: "u32 \<Rightarrow> real"

record clProfilePrimaries =
  red :: "real \<times> real"
  green :: "real \<times> real"
  blue :: "real \<times> real"
  white :: "real \<times> real"

datatype clProfileCurveType = CL_PCT_UNKNOWN | CL_PCT_GAMMA | CL_PCT_COMPLEX | CL_PCT_HLG | CL_PCT_PQ

record clProfileCurve =
  curve_type :: clProfileCurveType
  curve_gamma :: real
  matrixCurveScale :: real

text \<open>
  What the query has stored through its three output pointers when it returns; \<open>None\<close>
  is an output it has not written.
\<close>

record query_outputs =
  out_primaries :: "clProfilePrimaries option"
  out_curve :: "clProfileCurve option"
  out_luminance :: "int option"

text \<open>
  Modelled from the spec: the macros \<^verbatim>\<open>clNTOHL\<close> and \<^verbatim>\<open>clNTOHS\<close>, whose header is not
  among the sources. Section 6: "bytes 16..20 = matrix offset (uint32 BE)". \<open>get_be32\<close>
  is the \<^verbatim>\<open>memcpy\<close> of four bytes at an index followed by \<^verbatim>\<open>clNTOHL\<close>, \<open>get_be16\<close> the
  \<^verbatim>\<open>memcpy\<close> of two bytes followed by \<^verbatim>\<open>clNTOHS\<close>; both check the bounds of the buffer.
\<close>

definition get_be32 :: "u8 list \<Rightarrow> nat \<Rightarrow> u32 option" where
  "get_be32 raw off =
     (if off + 4 \<le> length raw then
        Some (of_nat (unat (raw ! off) * 16777216 + unat (raw ! (off + 1)) * 65536
                      + unat (raw ! (off + 2)) * 256 + unat (raw ! (off + 3))))
      else None)"

definition get_be16 :: "u8 list \<Rightarrow> nat \<Rightarrow> u16 option" where
  "get_be16 raw off =
     (if off + 2 \<le> length raw then
        Some (of_nat (unat (raw ! off) * 256 + unat (raw ! (off + 1))))
      else None)"

definition get_bytes :: "u8 list \<Rightarrow> nat \<Rightarrow> nat \<Rightarrow> u8 list option" where
  "get_bytes raw off n = (if off + n \<le> length raw then Some (take n (drop off raw)) else None)"

text \<open>
  The result of a block of the query: \<open>Inl\<close> is a fault (the C code reads outside the
  tag buffer, or uses a value it never initialised); \<open>Inr (False, out)\<close> is
  \<^verbatim>\<open>return clFalse\<close>; \<open>Inr (True, out)\<close> goes on to the next block.
\<close>

text \<open>
  Lines 290-327: \<^verbatim>\<open>tmpColorants\<close>. \<open>Inr (True, None)\<close> is the path on which the block
  leaves \<^verbatim>\<open>tmpColorants\<close> uninitialised (a colorant tag is missing and the \<^verbatim>\<open>A2B0\<close> tag has
  fewer than 32 bytes). The index \<^verbatim>\<open>matrixOffset + (i * 4)\<close> and the check
  \<^verbatim>\<open>(matrixOffset + 18) > aToBTagSize\<close> are computed on \<^verbatim>\<open>uint32_t\<close>.
\<close>

definition readColorants :: "lcms \<Rightarrow> cmsHPROFILE \<Rightarrow> fault + (bool \<times> cmsMAT3 option)" where
  "readColorants L h =
     (case (RedColorantTag h, GreenColorantTag h, BlueColorantTag h) of
        (Some (redX, redY, redZ), Some (greenX, greenY, greenZ), Some (blueX, blueY, blueZ)) \<Rightarrow>
          Inr (True, Some ((redX, greenX, blueX), (redY, greenY, blueY), (redZ, greenZ, blueZ)))
      | _ \<Rightarrow>
          (let rawA2B0 = AToB0Tag h;
               aToBTagSize = (of_nat (length rawA2B0) :: u32)
           in
           if aToBTagSize \<ge> 32 then
             (case get_be32 rawA2B0 16 of
                None \<Rightarrow> Inl OutOfBounds
              | Some matrixOffset \<Rightarrow>
                  if matrixOffset = 0 then Inr (False, None)
                  else if (matrixOffset + 18) > aToBTagSize then Inr (False, None)
                  else
                    (case those (map (\<lambda>i. get_be32 rawA2B0 (unat (matrixOffset + of_nat (i * 4))))
                                  [0..<9]) of
                       None \<Rightarrow> Inl OutOfBounds
                     | Some es \<Rightarrow>
                         (let matrix = map (cms15Fixed16toDouble L) es
                          in Inr (True, Some ((matrix ! 0, matrix ! 1, matrix ! 2),
                                              (matrix ! 3, matrix ! 4, matrix ! 5),
                                              (matrix ! 6, matrix ! 7, matrix ! 8))))))
           else Inr (True, None)))"

text \<open>Lines 275-375: the primaries block.\<close>

definition queryPrimaries :: "lcms \<Rightarrow> cmsHPROFILE \<Rightarrow> query_outputs \<Rightarrow> fault + (bool \<times> query_outputs)" where
  "queryPrimaries L h out =
     (case MediaWhitePointTag h of
        None \<Rightarrow> Inr (False, out)
      | Some whiteXYZ \<Rightarrow>
          (case readColorants L h of
             Inl f \<Rightarrow> Inl f
           | Inr (False, _) \<Rightarrow> Inr (False, out)
           | Inr (True, None) \<Rightarrow> Inl UninitialisedRead
           | Inr (True, Some tmpColorants) \<Rightarrow>
               (let (colorants, adaptedWhiteXYZ) =
                      (case (case ReadCHAD h of None \<Rightarrow> None | Some chad \<Rightarrow> cmsMAT3inverse L chad) of
                         Some invChad \<Rightarrow>
                           (cmsMAT3per L invChad tmpColorants,
                            if EncodedICCversion h < 0x4000000 \<and> \<not> IsTag_ChromaticAdaptationTag h
                            then whiteXYZ
                            else cmsMAT3eval L invChad whiteXYZ)
                       | None \<Rightarrow> (tmpColorants, whiteXYZ))
                in
                case colorants of ((v0x, v0y, v0z), (v1x, v1y, v1z), (v2x, v2y, v2z)) \<Rightarrow>
                  (let (rx, ry, rY) = cmsXYZ2xyY L (v0x, v1x, v2x);
                       (gx, gy, gY) = cmsXYZ2xyY L (v0y, v1y, v2y);
                       (bx, by, bY) = cmsXYZ2xyY L (v0z, v1z, v2z);
                       (wx, wy, wY) = cmsXYZ2xyY L adaptedWhiteXYZ
                   in Inr (True, out\<lparr> out_primaries :=
                        Some \<lparr> red = (rx, ry), green = (gx, gy), blue = (bx, by), white = (wx, wy) \<rparr> \<rparr>)))))"

text \<open>
  Lines 377-429: the curve block. The curve type and gamma are stored first; then comes
  the "check for A2B0 implicit scale in the matrix curve, for reporting purposes", which
  returns \<^verbatim>\<open>clFalse\<close> when the offset at bytes 20..24 is zero. The bytes of \<^verbatim>\<open>"para"\<close> are
  112, 97, 114, 97.
\<close>

definition queryCurve :: "lcms \<Rightarrow> cmsHPROFILE \<Rightarrow> query_outputs \<Rightarrow> fault + (bool \<times> query_outputs)" where
  "queryCurve L h out =
     (let rawA2B0 = AToB0Tag h;
          curve0 =
            (case RedTRCTag h of
               Some (curveType, gamma) \<Rightarrow>
                 \<lparr> curve_type = (if curveType = 1 then CL_PCT_GAMMA else CL_PCT_COMPLEX),
                   curve_gamma = gamma, matrixCurveScale = 0 \<rparr>
             | None \<Rightarrow>
                 (if length rawA2B0 > 0
                  then \<lparr> curve_type = CL_PCT_COMPLEX, curve_gamma = - 1, matrixCurveScale = 0 \<rparr>
                  else \<lparr> curve_type = CL_PCT_UNKNOWN, curve_gamma = 0, matrixCurveScale = 0 \<rparr>));
          aToBTagSize = (of_nat (length rawA2B0) :: u32)
      in
      if aToBTagSize \<ge> 32 then
        (case get_be32 rawA2B0 20 of
           None \<Rightarrow> Inl OutOfBounds
         | Some matrixCurveOffset \<Rightarrow>
             if matrixCurveOffset = 0 then Inr (False, out\<lparr> out_curve := Some curve0 \<rparr>)
             else
               (case get_bytes rawA2B0 (unat matrixCurveOffset) 4 of
                  None \<Rightarrow> Inl OutOfBounds
                | Some sig \<Rightarrow>
                    if sig = [112, 97, 114, 97] then
                      (case get_be16 rawA2B0 (unat (matrixCurveOffset + 8)) of
                         None \<Rightarrow> Inl OutOfBounds
                       | Some curveType \<Rightarrow>
                           if (curveType > 0) \<and> (curveType \<le> 4) then
                             (case (get_be32 rawA2B0 (unat (matrixCurveOffset + 12)),
                                    get_be32 rawA2B0 (unat (matrixCurveOffset + 16))) of
                                (Some eg, Some ea) \<Rightarrow>
                                  (let g = cms15Fixed16toDouble L eg;
                                       a = cms15Fixed16toDouble L ea
                                   in Inr (True, out\<lparr> out_curve :=
                                        Some (curve0\<lparr> matrixCurveScale := powf a g \<rparr>) \<rparr>))
                              | _ \<Rightarrow> Inl OutOfBounds)
                           else Inr (True, out\<lparr> out_curve := Some curve0 \<rparr>))
                    else Inr (True, out\<lparr> out_curve := Some curve0 \<rparr>)))
      else Inr (True, out\<lparr> out_curve := Some curve0 \<rparr>))"

text \<open>Lines 431-438: the luminance block, \<^verbatim>\<open>(int)lumi->Y\<close> or 0.\<close>

definition queryLuminance :: "cmsHPROFILE \<Rightarrow> int" where
  "queryLuminance h = (case LuminanceTag h of Some (X, Y, Z) \<Rightarrow> truncf Y | None \<Rightarrow> 0)"

text \<open>
  \<^verbatim>\<open>clProfileQuery\<close>. The three flags say which of the output pointers \<^verbatim>\<open>primaries\<close>,
  \<^verbatim>\<open>curve\<close> and \<^verbatim>\<open>luminance\<close> are not \<^verbatim>\<open>NULL\<close>. The result is the returned \<^verbatim>\<open>clBool\<close> with
  the outputs written.
\<close>

definition clProfileQuery ::
  "lcms \<Rightarrow> clProfile \<Rightarrow> bool \<Rightarrow> bool \<Rightarrow> bool \<Rightarrow> fault + (bool \<times> query_outputs)" where
  "clProfileQuery L profile primaries curve luminance =
     (let out0 = \<lparr> out_primaries = None, out_curve = None, out_luminance = None \<rparr>
      in
      case (if primaries then queryPrimaries L (handle profile) out0 else Inr (True, out0)) of
        Inl f \<Rightarrow> Inl f
      | Inr (False, out) \<Rightarrow> Inr (False, out)
      | Inr (True, out) \<Rightarrow>
          (case (if curve then queryCurve L (handle profile) out else Inr (True, out)) of
             Inl f \<Rightarrow> Inl f
           | Inr (False, out) \<Rightarrow> Inr (False, out)
           | Inr (True, out) \<Rightarrow>
               Inr (True, if luminance
                          then out\<lparr> out_luminance := Some (queryLuminance (handle profile)) \<rparr>
                          else out)))"

section \<open>Example contexts and transforms\<close>

text \<open>
  A context in which two profiles match when they are the same profile, every profile is
  enabled for the built-in engine, and LittleCMS is not used; and a prepared transform
  between two linear profiles of the same primaries (gamma 1 on both sides, identity
  matrix), of given profiles, formats and depths.
\<close>

definition example_context :: "nat clContext" where
  "example_context =
     \<lparr> clProfileMatches = (\<lambda>a b. a = b), profile_ccmm = (\<lambda>p. True),
       cmsDoTransform = (\<lambda>src srcPixels dst dstPixels pixelCount. None) \<rparr>"

definition example_transform ::
  "nat \<Rightarrow> clTransformFormat \<Rightarrow> int \<Rightarrow> nat \<Rightarrow> clTransformFormat \<Rightarrow> int \<Rightarrow> nat clTransform" where
  "example_transform sp sf sd dp df dd =
     \<lparr> srcProfile = Some sp, dstProfile = Some dp, srcFormat = sf, dstFormat = df,
       transform_srcDepth = sd, transform_dstDepth = dd, ccmmReady = True,
       matSrcToDst = ((1, 0, 0), (0, 1, 0), (0, 0, 1)),
       srcEOTF = CL_XTF_GAMMA, srcGamma = 1, dstOETF = CL_XTF_GAMMA, dstInvGamma = 1 \<rparr>"

text \<open>
  Profile handles for the query. \<open>mAB_header\<close> is the 32-byte header of a \<^verbatim>\<open>lutAtoBType\<close>
  tag with three input and three output channels, B curves at offset 32, and the given
  offsets of the matrix (bytes 16..20) and of the M curves (bytes 20..24).
  \<open>truncated_matrix_profile\<close> has no colorant tags and an \<^verbatim>\<open>A2B0\<close> tag of 64 bytes whose
  matrix starts at byte 32, so the tag ends after the eighth matrix entry.
  \<open>no_matrix_curve_profile\<close> has the colorant tags and an \<^verbatim>\<open>A2B0\<close> tag with B curves only
  (three identity curves), so both offsets are zero.
\<close>

definition mAB_header :: "u8 \<Rightarrow> u8 \<Rightarrow> u8 list" where
  "mAB_header matrixOffset matrixCurveOffset =
     [109, 65, 66, 32, 0, 0, 0, 0, 3, 3, 0, 0, 0, 0, 0, 32,
      0, 0, 0, matrixOffset, 0, 0, 0, matrixCurveOffset, 0, 0, 0, 0, 0, 0, 0, 0]"

definition example_handle :: "cmsCIEXYZ option \<Rightarrow> u8 list \<Rightarrow> cmsHPROFILE" where
  "example_handle colorant rawA2B0 =
     \<lparr> RedColorantTag = colorant, GreenColorantTag = colorant, BlueColorantTag = colorant,
       MediaWhitePointTag = Some (0.9642, 1, 0.8249), AToB0Tag = rawA2B0,
       ReadCHAD = Some ((1, 0, 0), (0, 1, 0), (0, 0, 1)),
       EncodedICCversion = 0x4200000, IsTag_ChromaticAdaptationTag = False,
       RedTRCTag = Some (1, 2.4), LuminanceTag = Some (0, 300, 0) \<rparr>"

definition curv_identity :: "u8 list" where
  "curv_identity = [99, 117, 114, 118, 0, 0, 0, 0, 0, 0, 0, 0]"

definition truncated_matrix_profile :: clProfile where
  "truncated_matrix_profile =
     \<lparr> handle = example_handle None (mAB_header 32 0 @ replicate 32 0), description = None \<rparr>"

definition no_matrix_curve_profile :: clProfile where
  "no_matrix_curve_profile =
     \<lparr> handle = example_handle (Some (0.4, 0.3, 0.2))
         (mAB_header 0 0 @ curv_identity @ curv_identity @ curv_identity),
       description = None \<rparr>"

section \<open>Properties\<close>

subsection \<open>The PQ transfer functions\<close>

lemma PQ_constants:
  "PQ_C1 = spec_c1" "PQ_C2 = spec_c2" "PQ_C3 = spec_c3" "PQ_M1 = spec_m1" "PQ_M2 = spec_m2"
  by (simp_all add: PQ_C1_def PQ_C2_def PQ_C3_def PQ_M1_def PQ_M2_def
      spec_c1_def spec_c2_def spec_c3_def spec_m1_def spec_m2_def)

text \<open>
  Claim C6. The five constants of the source are the fractions of SMPTE ST.2084, and
  \<open>PQ_EOTF\<close> and \<open>PQ_OETF\<close> compute the two formulas of the standard as the specification
  writes them: the clamp of the source is the \<open>max\<close> of the formula.
\<close>

theorem PQ_functions_are_ST2084:
  "PQ_C1 = 3424 / 4096 \<and> PQ_C2 = (2413 / 4096) * 32 \<and> PQ_C3 = (2392 / 4096) * 32
   \<and> PQ_M1 = (2610 / 4096) / 4 \<and> PQ_M2 = (2523 / 4096) * 128
   \<and> PQ_EOTF N = spec_PQ_EOTF N \<and> PQ_OETF L = spec_PQ_OETF L"
proof -
  have cs: "PQ_C1 = 3424 / 4096" "PQ_C2 = (2413 / 4096) * 32" "PQ_C3 = (2392 / 4096) * 32"
    "PQ_M1 = (2610 / 4096) / 4" "PQ_M2 = (2523 / 4096) * 128"
    by (simp_all add: PQ_C1_def PQ_C2_def PQ_C3_def PQ_M1_def PQ_M2_def)
  have eotf: "PQ_EOTF N = spec_PQ_EOTF N"
    unfolding PQ_EOTF_def spec_PQ_EOTF_def Let_def powf_def PQ_constants
    by (simp add: max_def not_less)
  have oetf: "PQ_OETF L = spec_PQ_OETF L"
    unfolding PQ_OETF_def spec_PQ_OETF_def Let_def powf_def PQ_constants
    by simp
  from cs eotf oetf show ?thesis by blast
qed

text \<open>
  In exact arithmetic the two functions are inverse to each other on the codes from
  \<open>PQ_C1 powr PQ_M2\<close> (the code of luminance 0) up to 1. What the float code adds to
  this is the rounding of \<^verbatim>\<open>powf\<close> and of the float operations, which this model does
  not describe; the tolerance of claim C7 is a bound on that rounding.
\<close>

lemma PQ_round_trip_exact:
  assumes "PQ_C1 powr PQ_M2 \<le> x" and "x \<le> 1"
  shows "PQ_OETF (PQ_EOTF x) = x"
proof -
  have c: "PQ_C1 = 107 / 128" "PQ_C2 = 2413 / 128" "PQ_C3 = 299 / 16" "0 < PQ_M1" "0 < PQ_M2"
    by (simp_all add: PQ_C1_def PQ_C2_def PQ_C3_def PQ_M1_def PQ_M2_def)
  have x0: "0 < x"
  proof -
    have "0 < PQ_C1 powr PQ_M2" using c by simp
    with assms(1) show ?thesis by linarith
  qed
  define y where "y = x powr (1 / PQ_M2)"
  have y1: "y \<le> 1" unfolding y_def using x0 assms(2) c(5) by (intro powr_le1) simp_all
  have yc: "PQ_C1 \<le> y"
  proof -
    have "(PQ_C1 powr PQ_M2) powr (1 / PQ_M2) \<le> x powr (1 / PQ_M2)"
      using assms(1) c by (intro powr_mono2) simp_all
    then show ?thesis using c by (simp add: y_def powr_powr)
  qed
  define t where "t = (y - PQ_C1) / (PQ_C2 - PQ_C3 * y)"
  have den: "0 < PQ_C2 - PQ_C3 * y" using y1 by (simp add: PQ_C2_def PQ_C3_def)
  have t0: "0 \<le> t" using yc den by (simp add: t_def)
  have eotf: "PQ_EOTF x = t powr (1 / PQ_M1)"
    using yc by (simp add: PQ_EOTF_def Let_def powf_def y_def[symmetric] t_def)
  have pw: "(t powr (1 / PQ_M1)) powr PQ_M1 = t" using t0 c by (simp add: powr_powr)
  have ratio: "(PQ_C1 + PQ_C2 * t) / (1 + PQ_C3 * t) = y"
  proof -
    have "0 \<le> PQ_C3 * t" using t0 by (simp add: PQ_C3_def)
    then have d2: "1 + PQ_C3 * t \<noteq> 0" by linarith
    have "PQ_C1 + PQ_C2 * t = y * (1 + PQ_C3 * t)"
      using den unfolding t_def PQ_C1_def PQ_C2_def PQ_C3_def by (simp add: field_simps)
    then show ?thesis using d2 by (simp add: field_simps)
  qed
  have "PQ_OETF (PQ_EOTF x) = y powr PQ_M2"
    by (simp add: PQ_OETF_def Let_def powf_def eotf pw ratio)
  also have "\<dots> = x" using x0 c by (simp add: y_def powr_powr)
  finally show ?thesis .
qed


subsection \<open>Loops over pixels\<close>

lemmas dispatch_defs = clCCMMTransform_def example_transform_def example_context_def
  clTransformFormatIsFloat_def clTransformFormatToPixelBytes_def USES_UINT8_T_def
  USES_UINT16_T_def as_u8_def as_u16_def as_f32_def Let_def each_pixel_def

lemmas access_defs = rd8_def rd16_def rdf_def rd_def put8_def put16_def to_uint8_def
  to_uint16_def wr8_def wr16_def wrf_def wr_def clPixelMathRoundf_def of_uint8_def
  of_uint16_def truncf_def

lemmas float_stage_defs = transformFloatToFloat_pixel_def gb_mat3_mul_vec3_def nonneg_def powf_def


text \<open>
  A loop over \<open>n1 + n2\<close> pixels is the loop over the first \<open>n1\<close> pixels followed by the
  loop over the next \<open>n2\<close>, started at the pixel pointers of pixel \<open>n1\<close>. This holds for
  every kernel whose loop body uses only the two pixel pointers, which are all kernels
  but \<open>transformRGB8ToFloat\<close> and \<open>transformRGB16ToFloat\<close>.
\<close>

lemma for_loop_step:
  "i < n \<Longrightarrow> for_loop i n body s = body i s \<bind> for_loop (i + 1) n body"
  by (subst for_loop.simps) (simp split: option.split)

lemma for_loop_done: "\<not> i < n \<Longrightarrow> for_loop i n body s = Some s"
  by (subst for_loop.simps) simp

lemma for_loop_split:
  assumes "i \<le> m" and "m \<le> n"
  shows "for_loop i n body s = for_loop i m body s \<bind> for_loop m n body"
  using assms
proof (induction i n body s rule: for_loop.induct)
  case (1 i n body s)
  show ?case
  proof (cases "i < m")
    case True
    then have n: "i < n" using "1.prems" by simp
    show ?thesis
    proof (cases "body i s")
      case None
      then show ?thesis using True n by (simp add: for_loop_step)
    next
      case (Some t)
      have "for_loop (i + 1) n body t = for_loop (i + 1) m body t \<bind> for_loop m n body"
        using "1.IH"[OF n Some] True "1.prems" by simp
      then show ?thesis using True n Some by (simp add: for_loop_step)
    qed
  next
    case False
    then have "i = m" using "1.prems" by simp
    then show ?thesis by (simp add: for_loop_done)
  qed
qed

lemma for_loop_shift:
  "for_loop (i + k) (n + k) body s = for_loop i n (\<lambda>j. body (j + k)) s"
proof (induction i n "\<lambda>j. body (j + k)" s rule: for_loop.induct)
  case (1 i n s)
  show ?case
  proof (cases "i < n")
    case True
    show ?thesis
    proof (cases "body (i + k) s")
      case None
      then show ?thesis using True by (simp add: for_loop_step)
    next
      case (Some t)
      from "1.hyps"[OF True Some]
      have ih: "for_loop (i + 1 + k) (n + k) body t = for_loop (i + 1) n (\<lambda>j. body (j + k)) t" .
      have e: "i + k + 1 = i + 1 + k" by simp
      have "for_loop (i + k + 1) (n + k) body t = for_loop (i + 1) n (\<lambda>j. body (j + k)) t"
        unfolding e by (rule ih)
      then show ?thesis using True Some by (simp add: for_loop_step)
    qed
  next
    case False
    then show ?thesis by (simp add: for_loop_done)
  qed
qed

lemma each_pixel_split:
  assumes "0 \<le> n1" and "0 \<le> n2"
  shows "each_pixel sp spb dp dpb (n1 + n2) body dst =
         each_pixel sp spb dp dpb n1 body dst
           \<bind> each_pixel (sp + n1 * spb) spb (dp + n1 * dpb) dpb n2 body"
proof -
  let ?b = "\<lambda>i. body (sp + i * spb) (dp + i * dpb)"
  have a: "for_loop 0 (n1 + n2) ?b dst = for_loop 0 n1 ?b dst \<bind> for_loop n1 (n1 + n2) ?b"
    using assms by (intro for_loop_split) simp_all
  have b: "for_loop n1 (n1 + n2) ?b =
      for_loop 0 n2 (\<lambda>i. body (sp + n1 * spb + i * spb) (dp + n1 * dpb + i * dpb))"
  proof
    fix t
    have "for_loop (0 + n1) (n2 + n1) ?b t = for_loop 0 n2 (\<lambda>j. ?b (j + n1)) t"
      by (rule for_loop_shift)
    then show "for_loop n1 (n1 + n2) ?b t =
      for_loop 0 n2 (\<lambda>i. body (sp + n1 * spb + i * spb) (dp + n1 * dpb + i * dpb)) t"
      by (simp add: algebra_simps)
  qed
  show ?thesis unfolding each_pixel_def a b ..
qed

lemma reformatFloatToFloat_split:
  assumes "0 \<le> n1" and "0 \<le> n2"
  shows "reformatFloatToFloat src sp spb dst dp dpb (n1 + n2) =
         reformatFloatToFloat src sp spb dst dp dpb n1
           \<bind> (\<lambda>d. reformatFloatToFloat src (sp + n1 * spb) spb d (dp + n1 * dpb) dpb n2)"
  unfolding reformatFloatToFloat_def Let_def by (rule each_pixel_split[OF assms])

lemma reformatFloatToRGB8_split:
  assumes "0 \<le> n1" and "0 \<le> n2"
  shows "reformatFloatToRGB8 src sp spb dst dp dpb (n1 + n2) =
         reformatFloatToRGB8 src sp spb dst dp dpb n1
           \<bind> (\<lambda>d. reformatFloatToRGB8 src (sp + n1 * spb) spb d (dp + n1 * dpb) dpb n2)"
  unfolding reformatFloatToRGB8_def Let_def by (rule each_pixel_split[OF assms])

lemma reformatFloatToRGB16_split:
  assumes "0 \<le> n1" and "0 \<le> n2"
  shows "reformatFloatToRGB16 src sp spb dst dp dpb dstDepth (n1 + n2) =
         reformatFloatToRGB16 src sp spb dst dp dpb dstDepth n1
           \<bind> (\<lambda>d. reformatFloatToRGB16 src (sp + n1 * spb) spb d (dp + n1 * dpb) dpb dstDepth n2)"
  unfolding reformatFloatToRGB16_def Let_def by (rule each_pixel_split[OF assms])

lemma reformatRGB8ToFloat_split:
  assumes "0 \<le> n1" and "0 \<le> n2"
  shows "reformatRGB8ToFloat src sp spb dst dp dpb (n1 + n2) =
         reformatRGB8ToFloat src sp spb dst dp dpb n1
           \<bind> (\<lambda>d. reformatRGB8ToFloat src (sp + n1 * spb) spb d (dp + n1 * dpb) dpb n2)"
  unfolding reformatRGB8ToFloat_def Let_def by (rule each_pixel_split[OF assms])

lemma reformatRGB16ToFloat_split:
  assumes "0 \<le> n1" and "0 \<le> n2"
  shows "reformatRGB16ToFloat src sp spb srcDepth dst dp dpb (n1 + n2) =
         reformatRGB16ToFloat src sp spb srcDepth dst dp dpb n1
           \<bind> (\<lambda>d. reformatRGB16ToFloat src (sp + n1 * spb) spb srcDepth d (dp + n1 * dpb) dpb n2)"
  unfolding reformatRGB16ToFloat_def Let_def by (rule each_pixel_split[OF assms])

lemma reformatRGB8ToRGB8_split:
  assumes "0 \<le> n1" and "0 \<le> n2"
  shows "reformatRGB8ToRGB8 src sp spb dst dp dpb (n1 + n2) =
         reformatRGB8ToRGB8 src sp spb dst dp dpb n1
           \<bind> (\<lambda>d. reformatRGB8ToRGB8 src (sp + n1 * spb) spb d (dp + n1 * dpb) dpb n2)"
  unfolding reformatRGB8ToRGB8_def Let_def by (rule each_pixel_split[OF assms])

lemma reformatRGB8ToRGB16_split:
  assumes "0 \<le> n1" and "0 \<le> n2"
  shows "reformatRGB8ToRGB16 src sp spb dst dp dpb dstDepth (n1 + n2) =
         reformatRGB8ToRGB16 src sp spb dst dp dpb dstDepth n1
           \<bind> (\<lambda>d. reformatRGB8ToRGB16 src (sp + n1 * spb) spb d (dp + n1 * dpb) dpb dstDepth n2)"
  unfolding reformatRGB8ToRGB16_def Let_def by (rule each_pixel_split[OF assms])

lemma reformatRGB16ToRGB8_split:
  assumes "0 \<le> n1" and "0 \<le> n2"
  shows "reformatRGB16ToRGB8 src sp spb srcDepth dst dp dpb (n1 + n2) =
         reformatRGB16ToRGB8 src sp spb srcDepth dst dp dpb n1
           \<bind> (\<lambda>d. reformatRGB16ToRGB8 src (sp + n1 * spb) spb srcDepth d (dp + n1 * dpb) dpb n2)"
  unfolding reformatRGB16ToRGB8_def Let_def by (rule each_pixel_split[OF assms])

lemma reformatRGB16ToRGB16_split:
  assumes "0 \<le> n1" and "0 \<le> n2"
  shows "reformatRGB16ToRGB16 src sp spb srcDepth dst dp dpb dstDepth (n1 + n2) =
         reformatRGB16ToRGB16 src sp spb srcDepth dst dp dpb dstDepth n1
           \<bind> (\<lambda>d. reformatRGB16ToRGB16 src (sp + n1 * spb) spb srcDepth d (dp + n1 * dpb) dpb dstDepth n2)"
  unfolding reformatRGB16ToRGB16_def Let_def by (rule each_pixel_split[OF assms])

lemma transformFloatToFloat_split:
  assumes "0 \<le> n1" and "0 \<le> n2"
  shows "transformFloatToFloat transform src sp spb dst dp dpb (n1 + n2) =
         transformFloatToFloat transform src sp spb dst dp dpb n1
           \<bind> (\<lambda>d. transformFloatToFloat transform src (sp + n1 * spb) spb d (dp + n1 * dpb) dpb n2)"
  unfolding transformFloatToFloat_def Let_def by (rule each_pixel_split[OF assms])

lemma transformFloatToRGB8_split:
  assumes "0 \<le> n1" and "0 \<le> n2"
  shows "transformFloatToRGB8 transform src sp spb dst dp dpb (n1 + n2) =
         transformFloatToRGB8 transform src sp spb dst dp dpb n1
           \<bind> (\<lambda>d. transformFloatToRGB8 transform src (sp + n1 * spb) spb d (dp + n1 * dpb) dpb n2)"
  unfolding transformFloatToRGB8_def Let_def by (rule each_pixel_split[OF assms])

lemma transformFloatToRGB16_split:
  assumes "0 \<le> n1" and "0 \<le> n2"
  shows "transformFloatToRGB16 transform src sp spb dst dp dpb dstDepth (n1 + n2) =
         transformFloatToRGB16 transform src sp spb dst dp dpb dstDepth n1
           \<bind> (\<lambda>d. transformFloatToRGB16 transform src (sp + n1 * spb) spb d (dp + n1 * dpb) dpb dstDepth n2)"
  unfolding transformFloatToRGB16_def Let_def by (rule each_pixel_split[OF assms])

lemma transformRGB8ToRGB8_split:
  assumes "0 \<le> n1" and "0 \<le> n2"
  shows "transformRGB8ToRGB8 transform src sp spb dst dp dpb (n1 + n2) =
         transformRGB8ToRGB8 transform src sp spb dst dp dpb n1
           \<bind> (\<lambda>d. transformRGB8ToRGB8 transform src (sp + n1 * spb) spb d (dp + n1 * dpb) dpb n2)"
  unfolding transformRGB8ToRGB8_def Let_def by (rule each_pixel_split[OF assms])

lemma transformRGB8ToRGB16_split:
  assumes "0 \<le> n1" and "0 \<le> n2"
  shows "transformRGB8ToRGB16 transform src sp spb dst dp dpb dstDepth (n1 + n2) =
         transformRGB8ToRGB16 transform src sp spb dst dp dpb dstDepth n1
           \<bind> (\<lambda>d. transformRGB8ToRGB16 transform src (sp + n1 * spb) spb d (dp + n1 * dpb) dpb dstDepth n2)"
  unfolding transformRGB8ToRGB16_def Let_def by (rule each_pixel_split[OF assms])

lemma transformRGB16ToRGB8_split:
  assumes "0 \<le> n1" and "0 \<le> n2"
  shows "transformRGB16ToRGB8 transform src sp spb srcDepth dst dp dpb (n1 + n2) =
         transformRGB16ToRGB8 transform src sp spb srcDepth dst dp dpb n1
           \<bind> (\<lambda>d. transformRGB16ToRGB8 transform src (sp + n1 * spb) spb srcDepth d (dp + n1 * dpb) dpb n2)"
  unfolding transformRGB16ToRGB8_def Let_def by (rule each_pixel_split[OF assms])

lemma transformRGB16ToRGB16_split:
  assumes "0 \<le> n1" and "0 \<le> n2"
  shows "transformRGB16ToRGB16 transform src sp spb srcDepth dst dp dpb dstDepth (n1 + n2) =
         transformRGB16ToRGB16 transform src sp spb srcDepth dst dp dpb dstDepth n1
           \<bind> (\<lambda>d. transformRGB16ToRGB16 transform src (sp + n1 * spb) spb srcDepth d (dp + n1 * dpb) dpb dstDepth n2)"
  unfolding transformRGB16ToRGB16_def Let_def by (rule each_pixel_split[OF assms])

lemmas kernel_splits = reformatFloatToFloat_split reformatFloatToRGB8_split reformatFloatToRGB16_split reformatRGB8ToFloat_split reformatRGB16ToFloat_split reformatRGB8ToRGB8_split reformatRGB8ToRGB16_split reformatRGB16ToRGB8_split reformatRGB16ToRGB16_split transformFloatToFloat_split transformFloatToRGB8_split transformFloatToRGB16_split transformRGB8ToRGB8_split transformRGB8ToRGB16_split transformRGB16ToRGB8_split transformRGB16ToRGB16_split

lemma clCCMMTransform_split:
  assumes "0 \<le> n1" and "0 \<le> n2"
    and "clProfileMatches C (srcProfile transform) (dstProfile transform)
         \<or> clTransformFormatIsFloat (srcFormat transform) (transform_srcDepth transform)
         \<or> \<not> clTransformFormatIsFloat (dstFormat transform) (transform_dstDepth transform)"
    and "spb = clTransformFormatToPixelBytes (srcFormat transform) (transform_srcDepth transform)"
    and "dpb = clTransformFormatToPixelBytes (dstFormat transform) (transform_dstDepth transform)"
  shows "clCCMMTransform C transform src sp dst dp (n1 + n2) =
         clCCMMTransform C transform src sp dst dp n1
           \<bind> (\<lambda>d. clCCMMTransform C transform src (sp + n1 * spb) d (dp + n1 * dpb) n2)"
  using assms(3)
  unfolding clCCMMTransform_def Let_def assms(4)[symmetric] assms(5)[symmetric]
  by (cases src; cases dst)
     (auto simp: kernel_splits[OF assms(1,2)] as_u8_def as_u16_def as_f32_def
           split: option.split bind_split)







subsection \<open>Identity reformat of 8-bit pixels\<close>






subsection \<open>Reformat to a 16-bit destination\<close>

lemma reformat_RGB8_to_RGBA16_depth12:
  "clCCMMTransform example_context (example_transform 0 CL_XF_RGB 8 0 CL_XF_RGBA 12)
     (U8 [255, 128, 0]) 0 (U16 [0, 0, 0, 0]) 0 1 = Some (U16 [4095, 2056, 0, 4095])"
  apply (simp add: dispatch_defs reformatRGB8ToRGB16_def)
  apply (subst for_loop.simps, simp add: access_defs)
  apply (subst for_loop.simps, simp)
  done

text \<open>
  Claim C9, as the specification states it, fails: the reformat of the RGB8 pixel
  (255, 128, 0) to RGBA16 at depth 12 is not (4095, 2055, 0, 4095).
\<close>

theorem reformat_depth12_is_not_2055:
  "clCCMMTransform example_context (example_transform 0 CL_XF_RGB 8 0 CL_XF_RGBA 12)
     (U8 [255, 128, 0]) 0 (U16 [0, 0, 0, 0]) 0 1 \<noteq> Some (U16 [4095, 2055, 0, 4095])"
  by (simp add: reformat_RGB8_to_RGBA16_depth12)

text \<open>
  Claim C9, amended. Between matching profiles, the RGB8 pixel (255, 128, 0) converted to
  RGBA16 at depth 12 is (4095, 2056, 0, 4095): 128 * 4095 / 255 is 2055.53 and is rounded
  to the nearest integer, and alpha is the depth maximum 4095 as the source has none.
\<close>

theorem reformat_depth12_is_2056:
  "clCCMMTransform example_context (example_transform 0 CL_XF_RGB 8 0 CL_XF_RGBA 12)
     (U8 [255, 128, 0]) 0 (U16 [0, 0, 0, 0]) 0 1 = Some (U16 [4095, 2056, 0, 4095])
   \<and> (128 * (4095 / 255) :: real) < 2056 \<and> (2055.5 :: real) \<le> 128 * (4095 / 255)"
  by (simp add: reformat_RGB8_to_RGBA16_depth12)

text \<open>
  Claim C5 fails on the code at the u16-to-u16 reformat path. From depth 16 to depth 10
  the sample 100 rescales to 100 * 1023 / 65535 = 1.56; \<open>reformatRGB16ToRGB16\<close> stores 1,
  the truncation, where round-to-nearest (which \<open>reformatRGB8ToRGB16\<close> and
  \<open>reformatRGB16ToRGB8\<close> apply through \<open>clPixelMathRoundf\<close>) gives 2.
\<close>

theorem reformat_RGB16_to_RGB16_truncates:
  "clCCMMTransform example_context (example_transform 0 CL_XF_RGB 16 0 CL_XF_RGB 10)
     (U16 [100, 0, 0]) 0 (U16 [0, 0, 0]) 0 1 = Some (U16 [1, 0, 0])
   \<and> round (of_uint16 100 * (1 / of_int (2 ^ nat 16 - 1) * of_int (2 ^ nat 10 - 1)) :: real) = 2"
proof -
  have "clCCMMTransform example_context (example_transform 0 CL_XF_RGB 16 0 CL_XF_RGB 10)
     (U16 [100, 0, 0]) 0 (U16 [0, 0, 0]) 0 1 = Some (U16 [1, 0, 0])"
    apply (simp add: dispatch_defs reformatRGB16ToRGB16_def)
    apply (subst for_loop.simps, simp add: access_defs)
    apply (subst for_loop.simps, simp)
    done
  moreover have "round (of_uint16 100 * (1 / of_int (2 ^ nat 16 - 1) * of_int (2 ^ nat 10 - 1)) :: real) = 2"
    by (simp add: of_uint16_def round_def)
  ultimately show ?thesis by (rule conjI)
qed

subsection \<open>Conversion of out-of-range values to integer samples\<close>





text \<open>
  With no destination transfer function the float stage stores the matrix product as it
  is; with gamma or PQ only negative values are replaced (by 0) before the power. Nothing
  limits a value from above.
\<close>

lemma float_stage_without_OETF:
  assumes "srcEOTF transform = CL_XTF_NONE" and "dstOETF transform = CL_XTF_NONE"
    and "rdf src srcPixel 0 = Some s0" and "rdf src srcPixel 1 = Some s1"
    and "rdf src srcPixel 2 = Some s2"
    and "gb_mat3_mul_vec3 (matSrcToDst transform) (s0, s1, s2) = (d0, d1, d2)"
  shows "transformFloatToFloat_pixel transform src srcPixel srcPixelBytes 6 = Some [d0, d1, d2]"
  using assms by (simp add: transformFloatToFloat_pixel_def)




subsection \<open>The task runner\<close>

text \<open>
  For every conversion that the dispatch does not send to \<open>transformRGB8ToFloat\<close> or
  \<open>transformRGB16ToFloat\<close> (the profiles match, or the source is float, or the
  destination is not float), any number of workers gives the result of one worker, a
  fault included.
\<close>

lemma sdiv_nonneg: "0 \<le> a \<Longrightarrow> 0 < b \<Longrightarrow> a sdiv b = a div (b :: int)"
  by (simp add: signed_divide_int_def sgn_if)

lemma run_tasks_append:
  "run_tasks C transform src dst (xs @ ys) =
     run_tasks C transform src dst xs \<bind> (\<lambda>d. run_tasks C transform src d ys)"
  by (induction xs arbitrary: dst) (simp_all split: bind_split)

lemma run_equal_tasks:
  assumes "0 \<le> k" and "0 \<le> ppt"
    and "clProfileMatches C (srcProfile transform) (dstProfile transform)
         \<or> clTransformFormatIsFloat (srcFormat transform) (transform_srcDepth transform)
         \<or> \<not> clTransformFormatIsFloat (dstFormat transform) (transform_dstDepth transform)"
    and "spb = clTransformFormatToPixelBytes (srcFormat transform) (transform_srcDepth transform)"
    and "dpb = clTransformFormatToPixelBytes (dstFormat transform) (transform_dstDepth transform)"
  shows "run_tasks C transform src dst
           (map (\<lambda>i. \<lparr> inPixels = sp + i * ppt * spb, outPixels = dp + i * ppt * dpb,
                         task_pixelCount = ppt, task_useCCMM = True \<rparr>) [0..k])
         = clCCMMTransform C transform src sp dst dp ((k + 1) * ppt)"
  using assms(1)
proof (induction k rule: int_ge_induct)
  case base
  show ?case by (simp add: transformTaskFunc_def)
next
  case (step k)
  have e: "[0..k + 1] = [0..k] @ [k + 1]" using step.hyps upto_rec2[of 0 "k + 1"] by simp
  have n: "0 \<le> (k + 1) * ppt" using step.hyps assms(2) by simp
  have "clCCMMTransform C transform src sp dst dp ((k + 1) * ppt + ppt) =
      clCCMMTransform C transform src sp dst dp ((k + 1) * ppt)
        \<bind> (\<lambda>d. clCCMMTransform C transform src (sp + (k + 1) * ppt * spb) d (dp + (k + 1) * ppt * dpb) ppt)"
    by (rule clCCMMTransform_split[OF n assms(2,3,4,5)])
  moreover have "(k + 1 + 1) * ppt = (k + 1) * ppt + ppt" by (simp add: algebra_simps)
  ultimately show ?case
    unfolding e by (simp add: run_tasks_append step.IH transformTaskFunc_def)
qed

lemma workers_agree_for_some_pixels:
  assumes "1 \<le> pixelCount" and "1 \<le> taskCount"
    and "clProfileMatches C (srcProfile transform) (dstProfile transform)
         \<or> clTransformFormatIsFloat (srcFormat transform) (transform_srcDepth transform)
         \<or> \<not> clTransformFormatIsFloat (dstFormat transform) (transform_dstDepth transform)"
    and "srcPixelBytes = clTransformFormatToPixelBytes (srcFormat transform) (transform_srcDepth transform)"
    and "dstPixelBytes = clTransformFormatToPixelBytes (dstFormat transform) (transform_dstDepth transform)"
  shows "doMultithreadedTransform C taskCount transform True src srcPixels srcPixelBytes
           dst dstPixels dstPixelBytes pixelCount
       = doMultithreadedTransform C 1 transform True src srcPixels srcPixelBytes
           dst dstPixels dstPixelBytes pixelCount"
proof -
  define tc where "tc = (if taskCount > pixelCount then pixelCount else taskCount)"
  have one: "doMultithreadedTransform C 1 transform True src srcPixels srcPixelBytes
           dst dstPixels dstPixelBytes pixelCount
       = worker_result (clCCMMTransform C transform src srcPixels dst dstPixels pixelCount)"
    using assms(1) by (simp add: doMultithreadedTransform_def transformTaskFunc_def)
  show ?thesis
  proof (cases "tc = 1")
    case True
    then show ?thesis
      using one by (simp add: doMultithreadedTransform_def transformTaskFunc_def tc_def)
  next
    case False
    have tc: "2 \<le> tc" "tc \<le> pixelCount" using assms(1,2) False by (auto simp: tc_def)
    define ppt where "ppt = pixelCount div tc"
    define lastTaskPixelCount where "lastTaskPixelCount = pixelCount - ppt * (tc - 1)"
    have sd: "pixelCount sdiv tc = ppt" using assms(1) tc by (simp add: sdiv_nonneg ppt_def)
    have "0 < pixelCount div tc" using tc by (simp add: pos_imp_zdiv_pos_iff)
    then have ppt: "0 \<le> ppt" by (simp add: ppt_def)
    have e: "tc * (pixelCount div tc) + pixelCount mod tc = pixelCount" by (rule mult_div_mod_eq)
    have "0 \<le> pixelCount mod tc" using tc by simp
    with e have "tc * ppt \<le> pixelCount" unfolding ppt_def by linarith
    then have last: "0 \<le> lastTaskPixelCount"
      using ppt by (simp add: lastTaskPixelCount_def algebra_simps)
    have up: "[0..tc - 1] = [0..tc - 2] @ [tc - 1]"
      using tc upto_rec2[of 0 "tc - 1"] by simp
    let ?g = "\<lambda>i. \<lparr> inPixels = srcPixels + i * ppt * srcPixelBytes,
                     outPixels = dstPixels + i * ppt * dstPixelBytes,
                     task_pixelCount = (if i = tc - 1 then lastTaskPixelCount else ppt),
                     task_useCCMM = True \<rparr>"
    have infos: "transformTaskInfos tc True srcPixels srcPixelBytes dstPixels dstPixelBytes pixelCount
        = map ?g [0..tc - 2] @ [?g (tc - 1)]"
      by (simp add: transformTaskInfos_def Let_def sd lastTaskPixelCount_def up)
    have front: "map ?g [0..tc - 2] =
        map (\<lambda>i. \<lparr> inPixels = srcPixels + i * ppt * srcPixelBytes,
                     outPixels = dstPixels + i * ppt * dstPixelBytes,
                     task_pixelCount = ppt, task_useCCMM = True \<rparr>) [0..tc - 2]"
      by (rule map_cong) auto
    have k: "0 \<le> tc - 2" using tc by simp
    have pre: "run_tasks C transform src dst (map ?g [0..tc - 2])
        = clCCMMTransform C transform src srcPixels dst dstPixels ((tc - 1) * ppt)"
      unfolding front using run_equal_tasks[OF k ppt assms(3,4,5)] by simp
    have n1: "0 \<le> (tc - 1) * ppt" using tc ppt by simp
    have whole: "pixelCount = (tc - 1) * ppt + lastTaskPixelCount"
      by (simp add: lastTaskPixelCount_def algebra_simps)
    have "run_tasks C transform src dst
            (transformTaskInfos tc True srcPixels srcPixelBytes dstPixels dstPixelBytes pixelCount)
        = clCCMMTransform C transform src srcPixels dst dstPixels ((tc - 1) * ppt)
            \<bind> (\<lambda>d. clCCMMTransform C transform src (srcPixels + (tc - 1) * ppt * srcPixelBytes) d
                     (dstPixels + (tc - 1) * ppt * dstPixelBytes) lastTaskPixelCount)"
      unfolding infos run_tasks_append pre by (simp add: transformTaskFunc_def)
    also have "\<dots> = clCCMMTransform C transform src srcPixels dst dstPixels pixelCount"
      unfolding whole by (rule clCCMMTransform_split[OF n1 last assms(3,4,5), symmetric])
    finally have "doMultithreadedTransform C taskCount transform True src srcPixels srcPixelBytes
           dst dstPixels dstPixelBytes pixelCount
       = worker_result (clCCMMTransform C transform src srcPixels dst dstPixels pixelCount)"
      using False tc by (simp add: doMultithreadedTransform_def tc_def[symmetric])
    then show ?thesis using one by simp
  qed
qed


lemma workers_agree_on_pixelwise_paths:
  assumes "0 \<le> pixelCount" and "1 \<le> taskCount"
    and "clProfileMatches C (srcProfile transform) (dstProfile transform)
         \<or> clTransformFormatIsFloat (srcFormat transform) (transform_srcDepth transform)
         \<or> \<not> clTransformFormatIsFloat (dstFormat transform) (transform_dstDepth transform)"
    and "srcPixelBytes = clTransformFormatToPixelBytes (srcFormat transform) (transform_srcDepth transform)"
    and "dstPixelBytes = clTransformFormatToPixelBytes (dstFormat transform) (transform_dstDepth transform)"
  shows "doMultithreadedTransform C taskCount transform True src srcPixels srcPixelBytes
           dst dstPixels dstPixelBytes pixelCount
       = doMultithreadedTransform C 1 transform True src srcPixels srcPixelBytes
           dst dstPixels dstPixelBytes pixelCount"
proof (cases "pixelCount = 0")
  case True
  then show ?thesis using assms(2) by (simp add: doMultithreadedTransform_def)
next
  case False
  with assms(1) have "1 \<le> pixelCount" by simp
  from workers_agree_for_some_pixels[OF this assms(2-5)] show ?thesis .
qed

text \<open>
  The slices of the task runner for at least one pixel: after the clamp of the task
  count, when it is not 1, there are \<open>taskCount\<close> tasks; task \<open>i\<close> starts
  \<open>i * pixelsPerTask\<close> pixels into both buffers and takes \<open>pixelsPerTask\<close> pixels, the
  last one \<open>pixelCount - pixelsPerTask * (taskCount - 1)\<close>; no task is empty and every
  pixel of \<open>0..pixelCount - 1\<close> lies in the slice of exactly one task.
\<close>

lemma task_slices_partition:
  fixes pixelCount taskCount :: int
  assumes "1 \<le> pixelCount" and "1 \<le> taskCount"
    and "tc = (if taskCount > pixelCount then pixelCount else taskCount)"
    and "tc \<noteq> 1"
    and "pixelsPerTask = pixelCount div tc"
    and "infos = transformTaskInfos tc useCCMM srcPixels srcPixelBytes dstPixels dstPixelBytes pixelCount"
  shows "length infos = nat tc"
    and "\<And>i. 0 \<le> i \<Longrightarrow> i < tc \<Longrightarrow>
           inPixels (infos ! nat i) = srcPixels + i * pixelsPerTask * srcPixelBytes
         \<and> outPixels (infos ! nat i) = dstPixels + i * pixelsPerTask * dstPixelBytes
         \<and> task_pixelCount (infos ! nat i) =
              (if i = tc - 1 then pixelCount - pixelsPerTask * (tc - 1) else pixelsPerTask)
         \<and> 0 < task_pixelCount (infos ! nat i)
         \<and> task_useCCMM (infos ! nat i) = useCCMM"
    and "\<And>q. 0 \<le> q \<Longrightarrow> q < pixelCount \<Longrightarrow>
           \<exists>!i. 0 \<le> i \<and> i < tc \<and> i * pixelsPerTask \<le> q
                \<and> q < i * pixelsPerTask + task_pixelCount (infos ! nat i)"
proof -
  have tc: "2 \<le> tc" "tc \<le> pixelCount" using assms(1-4) by (auto split: if_splits)
  have ppt_def: "pixelCount sdiv tc = pixelsPerTask" using assms(1,5) tc by (simp add: sdiv_nonneg)
  have "0 < pixelCount div tc" using tc by (simp add: pos_imp_zdiv_pos_iff)
  then have ppt1: "1 \<le> pixelsPerTask" using assms(5) by simp
  have le: "pixelsPerTask * tc \<le> pixelCount"
  proof -
    have e: "tc * (pixelCount div tc) + pixelCount mod tc = pixelCount" by (rule mult_div_mod_eq)
    have "0 \<le> pixelCount mod tc" using tc by simp
    with e have "tc * (pixelCount div tc) \<le> pixelCount" by linarith
    then show ?thesis unfolding assms(5) by (simp only: mult.commute)
  qed
  have gt: "pixelCount < pixelsPerTask * tc + tc"
  proof -
    have e: "tc * (pixelCount div tc) + pixelCount mod tc = pixelCount" by (rule mult_div_mod_eq)
    have "pixelCount mod tc < tc" using tc by simp
    with e have "pixelCount < tc * (pixelCount div tc) + tc" by linarith
    then show ?thesis unfolding assms(5) by (simp only: mult.commute)
  qed
  show len: "length infos = nat tc"
    using tc by (simp add: assms(6) transformTaskInfos_def Let_def)
  have nth: "infos ! nat i =
      \<lparr> inPixels = srcPixels + i * pixelsPerTask * srcPixelBytes,
        outPixels = dstPixels + i * pixelsPerTask * dstPixelBytes,
        task_pixelCount = (if i = tc - 1 then pixelCount - pixelsPerTask * (tc - 1) else pixelsPerTask),
        task_useCCMM = useCCMM \<rparr>" if "0 \<le> i" "i < tc" for i
    using that by (simp add: assms(6) transformTaskInfos_def Let_def ppt_def)
  have last: "pixelsPerTask \<le> pixelCount - pixelsPerTask * (tc - 1)"
    using le by (simp add: algebra_simps)
  have cnt: "task_pixelCount (infos ! nat i) =
              (if i = tc - 1 then pixelCount - pixelsPerTask * (tc - 1) else pixelsPerTask)"
    if "0 \<le> i" "i < tc" for i
    using nth[OF that] by simp
  show "inPixels (infos ! nat i) = srcPixels + i * pixelsPerTask * srcPixelBytes
         \<and> outPixels (infos ! nat i) = dstPixels + i * pixelsPerTask * dstPixelBytes
         \<and> task_pixelCount (infos ! nat i) =
              (if i = tc - 1 then pixelCount - pixelsPerTask * (tc - 1) else pixelsPerTask)
         \<and> 0 < task_pixelCount (infos ! nat i)
         \<and> task_useCCMM (infos ! nat i) = useCCMM" if "0 \<le> i" "i < tc" for i
    using nth[OF that] ppt1 last by simp
  show "\<exists>!i. 0 \<le> i \<and> i < tc \<and> i * pixelsPerTask \<le> q
                \<and> q < i * pixelsPerTask + task_pixelCount (infos ! nat i)"
    if q: "0 \<le> q" "q < pixelCount" for q
  proof -
    define i0 where "i0 = min (q div pixelsPerTask) (tc - 1)"
    have p: "0 < pixelsPerTask" using ppt1 by simp
    have qd: "(q div pixelsPerTask) * pixelsPerTask \<le> q" "q < (q div pixelsPerTask) * pixelsPerTask + pixelsPerTask"
    proof -
      have e: "(q div pixelsPerTask) * pixelsPerTask + q mod pixelsPerTask = q" by (rule div_mult_mod_eq)
      have "0 \<le> q mod pixelsPerTask" "q mod pixelsPerTask < pixelsPerTask" using p by simp_all
      with e show "(q div pixelsPerTask) * pixelsPerTask \<le> q"
        "q < (q div pixelsPerTask) * pixelsPerTask + pixelsPerTask"
        by linarith+
    qed
    have i0r: "0 \<le> i0" "i0 < tc"
      using q p tc by (simp_all add: i0_def pos_imp_zdiv_nonneg_iff)
    have lo: "i0 * pixelsPerTask \<le> q"
    proof -
      have "i0 * pixelsPerTask \<le> (q div pixelsPerTask) * pixelsPerTask"
        using p by (intro mult_right_mono) (simp_all add: i0_def)
      with qd(1) show ?thesis by simp
    qed
    have hi: "q < i0 * pixelsPerTask + task_pixelCount (infos ! nat i0)"
    proof (cases "i0 = tc - 1")
      case True
      then have "task_pixelCount (infos ! nat i0) = pixelCount - pixelsPerTask * (tc - 1)"
        using cnt[OF i0r] by simp
      moreover have "i0 * pixelsPerTask = pixelsPerTask * (tc - 1)" using True by simp
      ultimately show ?thesis using q by linarith
    next
      case False
      then have "i0 = q div pixelsPerTask" by (simp add: i0_def min_def split: if_splits)
      then show ?thesis using cnt[OF i0r] False qd(2) by simp
    qed
    have uniq: "i = i0" if i: "0 \<le> i" "i < tc" "i * pixelsPerTask \<le> q"
        "q < i * pixelsPerTask + task_pixelCount (infos ! nat i)" for i
    proof (cases "i = tc - 1")
      case True
      have "tc - 1 \<le> q div pixelsPerTask"
      proof -
        have "(tc - 1) * pixelsPerTask \<le> q" using i(3) True by simp
        then have "((tc - 1) * pixelsPerTask) div pixelsPerTask \<le> q div pixelsPerTask"
          using p by (rule zdiv_mono1)
        then show ?thesis using p by simp
      qed
      then show ?thesis using True by (simp add: i0_def)
    next
      case False
      then have c: "task_pixelCount (infos ! nat i) = pixelsPerTask" using cnt[OF i(1,2)] by simp
      have "i = q div pixelsPerTask"
      proof -
        have "q = pixelsPerTask * i + (q - i * pixelsPerTask)" by simp
        moreover have "0 \<le> q - i * pixelsPerTask" "q - i * pixelsPerTask < pixelsPerTask"
          using i(3,4) c by simp_all
        ultimately have "q div pixelsPerTask = i" by (rule int_div_pos_eq)
        then show ?thesis by simp
      qed
      moreover have "i \<le> tc - 1" using i(2) by simp
      ultimately show ?thesis by (simp add: i0_def)
    qed
    show ?thesis
    proof (rule ex1I[of _ i0])
      show "0 \<le> i0 \<and> i0 < tc \<and> i0 * pixelsPerTask \<le> q
                \<and> q < i0 * pixelsPerTask + task_pixelCount (infos ! nat i0)"
        using i0r lo hi by simp
      fix i assume "0 \<le> i \<and> i < tc \<and> i * pixelsPerTask \<le> q
                \<and> q < i * pixelsPerTask + task_pixelCount (infos ! nat i)"
      then show "i = i0" using uniq by blast
    qed
  qed
qed


text \<open>
  Claim C1 fails on the code. For an 8-bit source and a float destination between
  profiles that do not match, \<open>transformRGB8ToFloat\<close> writes every pixel of its slice to
  the first pixel of the slice. On two pixels, black and white, over a destination that
  holds 9 everywhere, one worker leaves (1, 1, 1) in the first pixel and does not write
  the second; two workers of one pixel each write (0, 0, 0) and (1, 1, 1).
\<close>

theorem one_worker_differs_from_two:
  "doMultithreadedTransform example_context 1 (example_transform 0 CL_XF_RGB 8 1 CL_XF_RGB 32) True
     (U8 [0, 0, 0, 255, 255, 255]) 0 3 (F32 [9, 9, 9, 9, 9, 9]) 0 12 2
     = Inr (F32 [1, 1, 1, 9, 9, 9])
   \<and> doMultithreadedTransform example_context 2 (example_transform 0 CL_XF_RGB 8 1 CL_XF_RGB 32) True
     (U8 [0, 0, 0, 255, 255, 255]) 0 3 (F32 [9, 9, 9, 9, 9, 9]) 0 12 2
     = Inr (F32 [0, 0, 0, 1, 1, 1])"
proof -
  have one: "doMultithreadedTransform example_context 1 (example_transform 0 CL_XF_RGB 8 1 CL_XF_RGB 32) True
     (U8 [0, 0, 0, 255, 255, 255]) 0 3 (F32 [9, 9, 9, 9, 9, 9]) 0 12 2
     = Inr (F32 [1, 1, 1, 9, 9, 9])"
    apply (simp add: doMultithreadedTransform_def transformTaskFunc_def worker_result_def
        dispatch_defs transformRGB8ToFloat_def)
    apply (subst for_loop.simps, simp add: access_defs float_stage_defs)
    apply (subst for_loop.simps, simp add: access_defs float_stage_defs)
    apply (subst for_loop.simps, simp)
    done
  have two: "doMultithreadedTransform example_context 2 (example_transform 0 CL_XF_RGB 8 1 CL_XF_RGB 32) True
     (U8 [0, 0, 0, 255, 255, 255]) 0 3 (F32 [9, 9, 9, 9, 9, 9]) 0 12 2
     = Inr (F32 [0, 0, 0, 1, 1, 1])"
    apply (simp add: doMultithreadedTransform_def transformTaskInfos_def transformTaskFunc_def
        worker_result_def upto.simps)
    apply (simp add: dispatch_defs transformRGB8ToFloat_def)
    apply (subst for_loop.simps, simp add: access_defs float_stage_defs)
    apply (subst for_loop.simps, simp add: access_defs float_stage_defs)
    apply (subst for_loop.simps, simp add: access_defs float_stage_defs)
    apply (subst for_loop.simps, simp add: access_defs float_stage_defs)
    done
  from one two show ?thesis by (rule conjI)
qed

text \<open>
  Claim C2 fails on the code at \<open>pixelCount = 0\<close>: every task count from 1 on (written
  \<open>1 + int n\<close>) is clamped to 0, the inline branch is not taken, and
  \<^verbatim>\<open>pixelCount / taskCount\<close> divides by zero.
\<close>

theorem no_pixels_divides_by_zero:
  "doMultithreadedTransform C (1 + int n) transform useCCMM src srcPixels srcPixelBytes
     dst dstPixels dstPixelBytes 0 = Inl DivisionByZero"
  by (simp add: doMultithreadedTransform_def)

subsection \<open>The profile query\<close>

text \<open>
  Claim C4 fails on the code. On a profile that has the white point, the colorants, a
  tone curve, a luminance and an \<^verbatim>\<open>A2B0\<close> tag whose matrix-curve offset is zero, the query
  with a curve requested returns \<^verbatim>\<open>clFalse\<close>: it has stored the curve (with
  \<open>matrixCurveScale = 0\<close>) and never reaches the luminance.
\<close>

theorem query_fails_without_matrix_curve:
  "clProfileQuery L no_matrix_curve_profile False True True =
     Inr (False, \<lparr> out_primaries = None,
                   out_curve = Some \<lparr> curve_type = CL_PCT_GAMMA, curve_gamma = 2.4,
                                       matrixCurveScale = 0 \<rparr>,
                   out_luminance = None \<rparr>)
   \<and> (\<exists>out. clProfileQuery L no_matrix_curve_profile True True True = Inr (False, out))"
proof -
  have a: "clProfileQuery L no_matrix_curve_profile False True True =
     Inr (False, \<lparr> out_primaries = None,
                   out_curve = Some \<lparr> curve_type = CL_PCT_GAMMA, curve_gamma = 2.4,
                                       matrixCurveScale = 0 \<rparr>,
                   out_luminance = None \<rparr>)"
    by (simp add: clProfileQuery_def queryCurve_def no_matrix_curve_profile_def
        example_handle_def mAB_header_def curv_identity_def get_be32_def Let_def)
  have b: "\<exists>out. clProfileQuery L no_matrix_curve_profile True True True = Inr (False, out)"
    by (simp add: clProfileQuery_def queryCurve_def queryPrimaries_def readColorants_def
        no_matrix_curve_profile_def example_handle_def mAB_header_def curv_identity_def
        get_be32_def Let_def split: prod.split option.split)
  from a b show ?thesis by (rule conjI)
qed

text \<open>
  Claim C10 fails on the code. For an \<^verbatim>\<open>A2B0\<close> tag of 64 bytes whose matrix offset is 32,
  the check \<^verbatim>\<open>(matrixOffset + 18) > aToBTagSize\<close> accepts the offset (50 is not above 64),
  and the ninth matrix entry is read at bytes 64..67, past the end of the tag.
\<close>

theorem matrix_read_past_end_of_tag:
  "get_be32 (AToB0Tag (handle truncated_matrix_profile)) 16 = Some 32
   \<and> length (AToB0Tag (handle truncated_matrix_profile)) = 64
   \<and> \<not> ((32 :: u32) + 18 > 64)
   \<and> get_be32 (AToB0Tag (handle truncated_matrix_profile)) (32 + 8 * 4) = None
   \<and> clProfileQuery L truncated_matrix_profile True curve luminance = Inl OutOfBounds"
  by (simp add: clProfileQuery_def queryPrimaries_def readColorants_def truncated_matrix_profile_def
      example_handle_def mAB_header_def get_be32_def Let_def upt_rec nth_append)

end
